theory Spec2Isabelle
  imports Main "HOL-Library.Word" "HOL-Library.Sublist"
begin

text \<open>
  A shallow embedding of \<open>worker.js\<close>, the Cloudflare worker that shares photo sessions
  through an R2 bucket: its \<open>fetch\<close> handler with the five routes (create a session,
  read a session, upload a photo, fetch a photo, fetch a thumbnail), the built-ins the
  handler calls, and the properties of the session store that the specification claims.
\<close>

section \<open>JavaScript primitives the worker relies on\<close>

text \<open>
  Strings are byte strings (the UTF-8 text of the JavaScript string), binary data is a list
  of octets. Numbers are integers: every number the worker computes with (photo counts,
  file sizes, configured limits, millisecond time values) is an integer, and the model
  leaves aside the rounding of IEEE doubles beyond \<open>2^53\<close>.
\<close>

type_synonym bytes = "8 word list"

text \<open>The exceptions the worker's own code and the built-ins it calls can throw.\<close>

datatype js_error = SyntaxError | TypeError | RangeError | URIError | InvalidCharacterError

text \<open>
  \<open>err.message\<close>: the text is chosen by the JavaScript engine; the model keeps one
  fixed text per kind of error.
\<close>

fun message :: "js_error \<Rightarrow> string" where
  "message SyntaxError = ''SyntaxError''"
| "message TypeError = ''TypeError''"
| "message RangeError = ''RangeError''"
| "message URIError = ''URIError''"
| "message InvalidCharacterError = ''InvalidCharacterError''"

definition is_digit :: "char \<Rightarrow> bool" where
  "is_digit c = (c \<in> set ''0123456789'')"

definition is_alnum :: "char \<Rightarrow> bool" where
  \<comment> \<open>the character class \<open>[a-zA-Z0-9]\<close>\<close>
  "is_alnum c =
     (c \<in> set ''abcdefghijklmnopqrstuvwxyzABCDEFGHIJKLMNOPQRSTUVWXYZ0123456789'')"

definition is_word :: "char \<Rightarrow> bool" where
  \<comment> \<open>the character class \<open>\w\<close>\<close>
  "is_word c = (is_alnum c \<or> c = CHR ''_'')"

definition is_space :: "char \<Rightarrow> bool" where
  \<comment> \<open>the ASCII characters among JavaScript's white space: tab, LF, VT, FF, CR, space\<close>
  "is_space c = (c \<in> set [CHR 0x09, CHR 0x0A, CHR 0x0B, CHR 0x0C, CHR 0x0D, CHR 0x20])"

subsection \<open>\<open>parseInt\<close> and number formatting\<close>

fun digit_value :: "char \<Rightarrow> nat option" where
  "digit_value c =
     (if is_digit c then Some (of_char c - 48)
      else if c \<in> set ''abcdef'' then Some (of_char c - 87)
      else if c \<in> set ''ABCDEF'' then Some (of_char c - 55)
      else None)"

definition radix_digit :: "nat \<Rightarrow> char \<Rightarrow> bool" where
  "radix_digit radix c = (case digit_value c of None \<Rightarrow> False | Some d \<Rightarrow> d < radix)"

definition digits_value :: "nat \<Rightarrow> string \<Rightarrow> nat" where
  "digits_value radix ds =
     foldl (\<lambda>acc c. acc * radix + (case digit_value c of None \<Rightarrow> 0 | Some d \<Rightarrow> d)) 0 ds"

text \<open>
  \<open>parseInt(s)\<close> with no radix: leading white space is skipped, a sign is read, a
  \<open>0x\<close> prefix selects base 16, and the longest prefix of digits is the value;
  \<open>None\<close> is \<open>NaN\<close> (no digit at all).
\<close>

definition parseInt :: "string \<Rightarrow> int option" where
  "parseInt s =
     (let t = dropWhile is_space s;
          neg = (take 1 t = ''-'');
          u = (if take 1 t = ''-'' \<or> take 1 t = ''+'' then drop 1 t else t);
          hex = (take 2 u = ''0x'' \<or> take 2 u = ''0X'');
          radix = (if hex then 16 else 10);
          ds = takeWhile (radix_digit radix) (if hex then drop 2 u else u)
      in if ds = [] then None
         else Some ((if neg then - 1 else 1) * int (digits_value radix ds)))"

fun nat_digits :: "nat \<Rightarrow> string" where
  "nat_digits n =
     (if n < 10 then [''0123456789'' ! n]
      else nat_digits (n div 10) @ [''0123456789'' ! (n mod 10)])"

text \<open>
  \<open>String(n)\<close> for an integer \<open>n\<close>, as a template literal renders it (decimal
  digits; JavaScript switches to exponent notation from \<open>10^21\<close> on).
\<close>

definition Number_toString :: "int \<Rightarrow> string" where
  "Number_toString n =
     (if n < 0 then CHR ''-'' # nat_digits (nat (- n)) else nat_digits (nat n))"

text \<open>A template literal renders \<open>NaN\<close> and \<open>undefined\<close> by their names.\<close>

definition template_number :: "int option \<Rightarrow> string" where
  "template_number n = (case n of None \<Rightarrow> ''NaN'' | Some i \<Rightarrow> Number_toString i)"

definition template_string :: "string option \<Rightarrow> string" where
  "template_string s = (case s of None \<Rightarrow> ''undefined'' | Some t \<Rightarrow> t)"

text \<open>\<open>x || d\<close> on an optional string: \<open>undefined\<close> and the empty string are falsy.\<close>

definition or_default :: "string option \<Rightarrow> string \<Rightarrow> string" where
  "or_default x d = (case x of None \<Rightarrow> d | Some s \<Rightarrow> if s = [] then d else s)"

text \<open>Comparisons with \<open>NaN\<close> are false.\<close>

definition num_ge :: "int \<Rightarrow> int option \<Rightarrow> bool" where
  "num_ge a b = (case b of None \<Rightarrow> False | Some n \<Rightarrow> a \<ge> n)"

definition num_gt :: "int \<Rightarrow> int option \<Rightarrow> bool" where
  "num_gt a b = (case b of None \<Rightarrow> False | Some n \<Rightarrow> a > n)"

subsection \<open>\<open>generateId\<close>\<close>

definition chars :: string where
  "chars = ''ABCDEFGHJKLMNPQRSTUVWXYZabcdefghjkmnpqrstuvwxyz23456789''"

text \<open>
  \<open>arr\<close> is the array that \<open>crypto.getRandomValues\<close> has filled, read by index.
\<close>

definition generateId :: "(nat \<Rightarrow> 8 word) \<Rightarrow> nat \<Rightarrow> string" where
  "generateId arr len = map (\<lambda>i. chars ! (unat (arr i) mod length chars)) [0..<len]"

subsection \<open>\<open>atob\<close> and the data-URL prefix\<close>

definition base64_alphabet :: string where
  "base64_alphabet = ''ABCDEFGHIJKLMNOPQRSTUVWXYZabcdefghijklmnopqrstuvwxyz0123456789+/''"

fun base64_index :: "string \<Rightarrow> char \<Rightarrow> nat option" where
  "base64_index [] c = None"
| "base64_index (x # xs) c = (if x = c then Some 0 else map_option Suc (base64_index xs c))"

definition sextet :: "char \<Rightarrow> nat" where
  "sextet c = (case base64_index base64_alphabet c of None \<Rightarrow> 0 | Some i \<Rightarrow> i)"

text \<open>
  Four characters give three octets; a final group of three gives two and a final group
  of two gives one, the spare low bits being dropped.
\<close>

fun base64_groups :: "string \<Rightarrow> nat list" where
  "base64_groups (a # b # c # d # rest) =
     (let n = ((sextet a * 64 + sextet b) * 64 + sextet c) * 64 + sextet d
      in [n div 65536, n div 256 mod 256, n mod 256] @ base64_groups rest)"
| "base64_groups [a, b, c] =
     (let n = ((sextet a * 64 + sextet b) * 64 + sextet c) div 4
      in [n div 256, n mod 256])"
| "base64_groups [a, b] = [(sextet a * 64 + sextet b) div 16]"
| "base64_groups _ = []"

definition strip_padding :: "string \<Rightarrow> string" where
  "strip_padding s =
     (if length s mod 4 = 0 \<and> s \<noteq> [] \<and> last s = CHR ''=''
      then (if length s \<ge> 2 \<and> last (butlast s) = CHR ''=''
            then butlast (butlast s) else butlast s)
      else s)"

text \<open>
  \<open>atob\<close> is the forgiving base64 decoder: ASCII white space is removed, one or two
  padding characters are removed from an input whose length is a multiple of four, and
  the rest must be base64 characters, not one more than a multiple of four of them. The
  result is the binary string, one character per octet; failure throws.
\<close>

definition atob :: "string \<Rightarrow> js_error + string" where
  "atob s =
     (let t = strip_padding
                (filter (\<lambda>c. c \<notin> set [CHR 0x09, CHR 0x0A, CHR 0x0C, CHR 0x0D, CHR 0x20]) s)
      in if length t mod 4 = 1 \<or> (\<exists>c \<in> set t. c \<notin> set base64_alphabet)
         then Inl InvalidCharacterError
         else Inr (map char_of (base64_groups t)))"

text \<open>
  \<open>thumbData.replace(/^data:image\/\w+;base64,/, '')\<close>: the prefix is removed when
  the string starts with \<open>data:image/\<close>, one or more word characters and
  \<open>;base64,\<close>; otherwise the string is unchanged.
\<close>

definition strip_data_url :: "string \<Rightarrow> string" where
  "strip_data_url s =
     (let r = drop 11 s; w = takeWhile is_word r; t = dropWhile is_word r
      in if take 11 s = ''data:image/'' \<and> w \<noteq> [] \<and> take 8 t = '';base64,''
         then drop 8 t else s)"

subsection \<open>\<open>decodeURIComponent\<close>\<close>

datatype uri_token = Lit char | Pct nat

fun uri_tokens :: "string \<Rightarrow> uri_token list option" where
  "uri_tokens [] = Some []"
| "uri_tokens (c # cs) =
     (if c = CHR ''%'' then
        (case cs of
           h # l # rest \<Rightarrow>
             (case (digit_value h, digit_value l) of
                (Some x, Some y) \<Rightarrow> map_option (Cons (Pct (x * 16 + y))) (uri_tokens rest)
              | _ \<Rightarrow> None)
         | _ \<Rightarrow> None)
      else map_option (Cons (Lit c)) (uri_tokens cs))"

fun pct_octets :: "uri_token list \<Rightarrow> nat list option" where
  "pct_octets [] = Some []"
| "pct_octets (Lit c # ts) = None"
| "pct_octets (Pct b # ts) = map_option (Cons b) (pct_octets ts)"

text \<open>
  The continuation octets that may follow the lead octet \<open>b\<close> of a well-formed UTF-8
  sequence: their number, and the range of the first of them (which excludes overlong
  forms, surrogates and code points beyond U+10FFFF).
\<close>

definition utf8_tail :: "nat \<Rightarrow> (nat \<times> nat \<times> nat) option" where
  "utf8_tail b =
     (if 194 \<le> b \<and> b \<le> 223 then Some (1, 128, 191)
      else if b = 224 then Some (2, 160, 191)
      else if b = 237 then Some (2, 128, 159)
      else if 225 \<le> b \<and> b \<le> 239 then Some (2, 128, 191)
      else if b = 240 then Some (3, 144, 191)
      else if 241 \<le> b \<and> b \<le> 243 then Some (3, 128, 191)
      else if b = 244 then Some (3, 128, 143)
      else None)"

definition utf8_tail_ok :: "nat \<Rightarrow> nat \<Rightarrow> nat list \<Rightarrow> bool" where
  "utf8_tail_ok lo hi os =
     (case os of
        [] \<Rightarrow> True
      | x # xs \<Rightarrow> lo \<le> x \<and> x \<le> hi \<and> (\<forall>y \<in> set xs. 128 \<le> y \<and> y \<le> 191))"

function uri_decode :: "uri_token list \<Rightarrow> string option" where
  "uri_decode [] = Some []"
| "uri_decode (Lit c # ts) = map_option (Cons c) (uri_decode ts)"
| "uri_decode (Pct b # ts) =
     (if b < 128 then map_option (Cons (char_of b)) (uri_decode ts)
      else
        (case utf8_tail b of
           None \<Rightarrow> None
         | Some (n, lo, hi) \<Rightarrow>
             (case pct_octets (take n ts) of
                None \<Rightarrow> None
              | Some os \<Rightarrow>
                  if length os = n \<and> utf8_tail_ok lo hi os
                  then map_option (\<lambda>r. map char_of (b # os) @ r) (uri_decode (drop n ts))
                  else None)))"
  by pat_completeness auto
termination
  by (relation "measure length") auto

text \<open>
  \<open>decodeURIComponent\<close>: every \<open>%XX\<close> escape becomes its octet, the octets above 127
  must form well-formed UTF-8, and a malformed escape or sequence throws \<open>URIError\<close>.
\<close>

definition decodeURIComponent :: "string \<Rightarrow> js_error + string" where
  "decodeURIComponent s =
     (case uri_tokens s of
        None \<Rightarrow> Inl URIError
      | Some ts \<Rightarrow> (case uri_decode ts of None \<Rightarrow> Inl URIError | Some r \<Rightarrow> Inr r))"

section \<open>Data model\<close>

text \<open>
  A value that \<open>request.json()\<close> yields (numbers restricted to integers; the keys of
  an object are distinct).
\<close>

datatype jsval =
    JNull
  | JBool bool
  | JNum int
  | JStr string
  | JArr "jsval list"
  | JObj "(string \<times> jsval) list"

fun truthy :: "jsval \<Rightarrow> bool" where
  "truthy JNull = False"
| "truthy (JBool b) = b"
| "truthy (JNum n) = (n \<noteq> 0)"
| "truthy (JStr s) = (s \<noteq> [])"
| "truthy (JArr xs) = True"
| "truthy (JObj kvs) = True"

text \<open>
  \<open>body.k\<close> for one of the keys \<open>title\<close>, \<open>photographer\<close>, \<open>groups\<close> (none of them
  a built-in property): reading a property of \<open>null\<close> throws, an object gives the
  member or \<open>undefined\<close> (\<open>None\<close>), anything else gives \<open>undefined\<close>.
\<close>

fun property :: "jsval \<Rightarrow> string \<Rightarrow> js_error + jsval option" where
  "property JNull k = Inl TypeError"
| "property (JObj kvs) k = Inr (map_of kvs k)"
| "property v k = Inr None"

definition or_value :: "jsval option \<Rightarrow> jsval \<Rightarrow> jsval" where
  \<comment> \<open>\<open>x || d\<close>\<close>
  "or_value x d = (case x of None \<Rightarrow> d | Some v \<Rightarrow> if truthy v then v else d)"

text \<open>
  A time value is a number of milliseconds since the epoch. The ISO-8601 string that
  \<open>toISOString\<close> gives for a time value, and that \<open>new Date\<close> reads back to the same
  time value, is modelled by the time value itself.
\<close>

type_synonym timestamp = int

definition toISOString :: "int option \<Rightarrow> js_error + timestamp" where
  \<comment> \<open>\<open>None\<close> is the time value \<open>NaN\<close>; an invalid date throws\<close>
  "toISOString t =
     (case t of
        None \<Rightarrow> Inl RangeError
      | Some v \<Rightarrow> if \<bar>v\<bar> \<le> 8640000000000000 then Inr v else Inl RangeError)"

record photo_record =
  photo_fname :: string
  photo_groupId :: string
  photo_size :: nat
  photo_type :: string

text \<open>The object \<open>meta\<close>: the Session document.\<close>

record session =
  session_id :: string
  title :: jsval
  photographer :: jsval
  groups :: jsval
  createdAt :: timestamp
  expiresAt :: timestamp
  photoCount :: nat
  photos :: "photo_record list"

subsection \<open>The bucket \<open>env.PHOTOS\<close>\<close>

text \<open>
  What is stored under a key is either the JSON text of a Session document, which is what
  \<open>JSON.stringify(meta)\<close> writes and \<open>JSON.parse\<close> reads back to the same document
  (the codec's round trip is taken as given), or raw octets. Raw octets under a metadata
  key stand for content that \<open>JSON.parse\<close> rejects; JSON text of another shape than a
  Session document is outside the model.
\<close>

datatype blob = JsonText session | Raw bytes

definition JSON_stringify :: "session \<Rightarrow> blob" where
  "JSON_stringify meta = JsonText meta"

fun JSON_parse :: "blob \<Rightarrow> js_error + session" where
  "JSON_parse (JsonText meta) = Inr meta"
| "JSON_parse (Raw bs) = Inl SyntaxError"

record r2object =
  obj_body :: blob
  contentType :: "string option"
  customMetadata :: "(string \<times> string) list"

type_synonym bucket = "string \<rightharpoonup> r2object"

definition PHOTOS_put ::
  "string \<Rightarrow> blob \<Rightarrow> string \<Rightarrow> (string \<times> string) list \<Rightarrow> bucket \<Rightarrow> bucket" where
  "PHOTOS_put key v ct custom PHOTOS =
     PHOTOS(key \<mapsto> \<lparr>obj_body = v, contentType = Some ct, customMetadata = custom\<rparr>)"

text \<open>The three key shapes.\<close>

definition meta_key :: "string \<Rightarrow> string" where
  "meta_key sessionId = ''sessions/'' @ sessionId @ ''/meta.json''"

definition photo_key :: "string \<Rightarrow> string \<Rightarrow> string" where
  "photo_key sessionId f = ''sessions/'' @ sessionId @ ''/photos/'' @ f"

definition thumb_key :: "string \<Rightarrow> string \<Rightarrow> string" where
  "thumb_key sessionId f = ''sessions/'' @ sessionId @ ''/thumbs/'' @ f"

subsection \<open>Requests, environment and responses\<close>

text \<open>
  A \<open>File\<close> of the form: name, declared size (\<open>file.size\<close>), media type and the
  octets it streams.
\<close>

record file_part =
  file_name :: string
  file_size :: nat
  file_type :: string
  file_stream :: bytes

text \<open>The \<open>thumb\<close> entry is a string (a base64 data URL) or a blob.\<close>

datatype thumb = ThumbString string | ThumbBlob bytes

text \<open>
  What \<open>formData.get\<close> gives for the four entries the worker reads (\<open>None\<close> is
  \<open>null\<close>): \<open>file\<close> is a file part, \<open>fname\<close> and \<open>groupId\<close> are text fields.
\<close>

record form =
  form_file :: "file_part option"
  form_fname :: "string option"
  form_groupId :: "string option"
  form_thumb :: "thumb option"

text \<open>
  A request: method, \<open>url.pathname\<close>, the result of \<open>request.json()\<close> and of
  \<open>request.formData()\<close> (\<open>None\<close> when the body cannot be read as such and the call
  throws).
\<close>

record request =
  request_method :: string
  pathname :: string
  json :: "jsval option"
  formData :: "form option"

text \<open>The configuration variables of \<open>env\<close> (\<open>None\<close> when unset).\<close>

record env =
  SESSION_TTL_DAYS :: "string option"
  MAX_PHOTOS_PER_SESSION :: "string option"
  MAX_FILE_SIZE_MB :: "string option"

text \<open>
  What one invocation reads from outside: the clock (one reading, in milliseconds, for
  the whole invocation) and the random octets.
\<close>

record runtime =
  clock :: int
  random :: "nat \<Rightarrow> 8 word"

text \<open>The objects that \<open>jsonResponse\<close> serialises.\<close>

datatype json_data =
    ErrorObj string
  | CreatedObj string timestamp
  | MetaObj session
  | UploadedObj bool string nat

datatype response_body = NoBody | Json json_data | Stream blob

record response =
  status :: nat
  headers :: "(string \<times> string) list"
  payload :: response_body

definition corsHeaders :: "(string \<times> string) list" where
  "corsHeaders =
     [(''Access-Control-Allow-Origin'', ''*''),
      (''Access-Control-Allow-Methods'', ''GET, POST, PUT, DELETE, OPTIONS''),
      (''Access-Control-Allow-Headers'', ''Content-Type'')]"

definition jsonResponse :: "json_data \<Rightarrow> nat \<Rightarrow> response" where
  "jsonResponse data st =
     \<lparr>status = st,
      headers = (''Content-Type'', ''application/json'') # corsHeaders,
      payload = Json data\<rparr>"

definition errorResponse :: "string \<Rightarrow> nat \<Rightarrow> response" where
  "errorResponse msg st = jsonResponse (ErrorObj msg) st"

definition assetResponse :: "blob \<Rightarrow> string \<Rightarrow> response" where
  \<comment> \<open>\<open>new Response(obj.body, {headers: ...})\<close> of the two asset routes\<close>
  "assetResponse b ct =
     \<lparr>status = 200,
      headers = [(''Content-Type'', ct), (''Cache-Control'', ''public, max-age=86400'')]
                @ corsHeaders,
      payload = Stream b\<rparr>"

section \<open>The worker\<close>

text \<open>
  Each route of \<open>fetch\<close> is a function from the bucket to the outcome of the
  \<open>try\<close> block, a thrown error (\<open>Inl\<close>) or a returned response (\<open>Inr\<close>), and the
  bucket as the route leaves it. A \<open>put\<close> that has happened before a throw stays.
\<close>

type_synonym outcome = "(js_error + response) \<times> bucket"

subsection \<open>\<open>POST /api/session\<close>: create a session\<close>

definition create_session :: "env \<Rightarrow> runtime \<Rightarrow> request \<Rightarrow> bucket \<Rightarrow> outcome" where
  "create_session env rt request PHOTOS =
     (case json request of
        None \<Rightarrow> (Inl SyntaxError, PHOTOS)
      | Some body \<Rightarrow>
          let sessionId = generateId (random rt) 8;
              now = clock rt;
              ttlDays = parseInt (or_default (SESSION_TTL_DAYS env) ''7'')
          in (case toISOString (map_option (\<lambda>d. clock rt + d * 86400000) ttlDays) of
                Inl e \<Rightarrow> (Inl e, PHOTOS)
              | Inr expires \<Rightarrow>
          (case property body ''title'' of
                Inl e \<Rightarrow> (Inl e, PHOTOS)
              | Inr t \<Rightarrow>
          (case property body ''photographer'' of
                Inl e \<Rightarrow> (Inl e, PHOTOS)
              | Inr p \<Rightarrow>
          (case property body ''groups'' of
                Inl e \<Rightarrow> (Inl e, PHOTOS)
              | Inr g \<Rightarrow>
                  let meta = \<lparr>session_id = sessionId,
                              title = or_value t (JStr []),
                              photographer = or_value p (JStr []),
                              groups = or_value g (JArr []),
                              createdAt = now,
                              expiresAt = expires,
                              photoCount = 0,
                              photos = []\<rparr>
                  in (Inr (jsonResponse (CreatedObj sessionId expires) 200),
                      PHOTOS_put (meta_key sessionId) (JSON_stringify meta)
                        ''application/json'' [] PHOTOS))))))"

subsection \<open>\<open>GET /api/session/:id\<close>: read a session\<close>

definition get_session :: "runtime \<Rightarrow> string \<Rightarrow> bucket \<Rightarrow> outcome" where
  "get_session rt sessionId PHOTOS =
     (case PHOTOS (meta_key sessionId) of
        None \<Rightarrow> (Inr (errorResponse ''Session not found'' 404), PHOTOS)
      | Some obj \<Rightarrow>
          (case JSON_parse (obj_body obj) of
             Inl e \<Rightarrow> (Inl e, PHOTOS)
           | Inr meta \<Rightarrow>
               if expiresAt meta < clock rt
               then (Inr (errorResponse ''Session expired'' 410), PHOTOS)
               else (Inr (jsonResponse (MetaObj meta) 200), PHOTOS)))"

subsection \<open>\<open>POST /api/session/:id/upload\<close>: upload a photo\<close>

definition upload_fname :: "form \<Rightarrow> js_error + string" where
  \<comment> \<open>\<open>formData.get('fname') || file.name\<close>, where \<open>file\<close> may be \<open>null\<close>\<close>
  "upload_fname fd =
     (let given = or_default (form_fname fd) []
      in if given \<noteq> [] then Inr given
         else (case form_file fd of
                 None \<Rightarrow> Inl TypeError
               | Some file \<Rightarrow> Inr (file_name file)))"

definition thumb_given :: "thumb option \<Rightarrow> bool" where
  \<comment> \<open>\<open>if (thumbData)\<close>: \<open>null\<close> and the empty string are falsy\<close>
  "thumb_given t =
     (case t of
        None \<Rightarrow> False
      | Some (ThumbString s) \<Rightarrow> s \<noteq> []
      | Some (ThumbBlob b) \<Rightarrow> True)"

definition thumb_body :: "thumb \<Rightarrow> js_error + bytes" where
  "thumb_body thumbData =
     (case thumbData of
        ThumbString s \<Rightarrow>
          (case atob (strip_data_url s) of
             Inl e \<Rightarrow> Inl e
           | Inr binary \<Rightarrow> Inr (map of_char binary))
      | ThumbBlob b \<Rightarrow> Inr b)"

definition save_thumb :: "string \<Rightarrow> string \<Rightarrow> thumb option \<Rightarrow> bucket \<Rightarrow> js_error + bucket" where
  "save_thumb sessionId fname thumbData PHOTOS =
     (case thumbData of
        None \<Rightarrow> Inr PHOTOS
      | Some t \<Rightarrow>
          if thumb_given thumbData then
            (case thumb_body t of
               Inl e \<Rightarrow> Inl e
             | Inr thumbBody \<Rightarrow>
                 Inr (PHOTOS_put (thumb_key sessionId fname) (Raw thumbBody) ''image/jpeg'' []
                        PHOTOS))
          else Inr PHOTOS)"

definition photo_entry :: "string \<Rightarrow> string \<Rightarrow> file_part \<Rightarrow> photo_record" where
  \<comment> \<open>the object literal \<open>{fname, groupId, size: file.size, type: file.type}\<close>\<close>
  "photo_entry fname groupId file =
     \<lparr>photo_fname = fname,
      photo_groupId = groupId,
      photo_size = file_size file,
      photo_type = file_type file\<rparr>"

definition add_photo :: "session \<Rightarrow> photo_record \<Rightarrow> session" where
  \<comment> \<open>\<open>meta.photoCount++; meta.photos.push(entry)\<close>\<close>
  "add_photo meta entry =
     meta\<lparr>photoCount := photoCount meta + 1, photos := photos meta @ [entry]\<rparr>"

definition photo_object :: "string \<Rightarrow> string \<Rightarrow> file_part \<Rightarrow> r2object" where
  \<comment> \<open>what the first \<open>put\<close> stores: the stream of the file and its two metadata records\<close>
  "photo_object fname groupId file =
     \<lparr>obj_body = Raw (file_stream file),
      contentType = Some (or_default (Some (file_type file)) ''image/jpeg''),
      customMetadata = [(''groupId'', groupId), (''originalName'', fname)]\<rparr>"

definition store_photo ::
  "string \<Rightarrow> session \<Rightarrow> file_part \<Rightarrow> string \<Rightarrow> string \<Rightarrow> thumb option \<Rightarrow> bucket \<Rightarrow> outcome" where
  "store_photo sessionId meta file fname groupId thumbData PHOTOS =
     (let PHOTOS1 = PHOTOS_put (photo_key sessionId fname) (Raw (file_stream file))
                      (or_default (Some (file_type file)) ''image/jpeg'')
                      [(''groupId'', groupId), (''originalName'', fname)] PHOTOS
      in (case save_thumb sessionId fname thumbData PHOTOS1 of
            Inl e \<Rightarrow> (Inl e, PHOTOS1)
          | Inr PHOTOS2 \<Rightarrow>
              let meta' = add_photo meta (photo_entry fname groupId file)
              in (Inr (jsonResponse (UploadedObj True fname (photoCount meta')) 200),
                  PHOTOS_put (meta_key sessionId) (JSON_stringify meta')
                    ''application/json'' [] PHOTOS2)))"

definition maxPhotos :: "env \<Rightarrow> int option" where
  "maxPhotos env = parseInt (or_default (MAX_PHOTOS_PER_SESSION env) ''50'')"

definition maxSize :: "env \<Rightarrow> int option" where
  "maxSize env =
     map_option (\<lambda>n. n * 1024 * 1024) (parseInt (or_default (MAX_FILE_SIZE_MB env) ''25''))"

definition upload_photo :: "env \<Rightarrow> request \<Rightarrow> string \<Rightarrow> bucket \<Rightarrow> outcome" where
  "upload_photo env request sessionId PHOTOS =
     (case PHOTOS (meta_key sessionId) of
        None \<Rightarrow> (Inr (errorResponse ''Session not found'' 404), PHOTOS)
      | Some metaObj \<Rightarrow>
     (case JSON_parse (obj_body metaObj) of
        Inl e \<Rightarrow> (Inl e, PHOTOS)
      | Inr meta \<Rightarrow>
          if num_ge (int (photoCount meta)) (maxPhotos env)
          then (Inr (errorResponse
                       (''Maximum '' @ template_number (maxPhotos env)
                          @ '' photos per session'')
                       429), PHOTOS)
          else
     (case formData request of
        None \<Rightarrow> (Inl TypeError, PHOTOS)
      | Some fd \<Rightarrow>
     (case upload_fname fd of
        Inl e \<Rightarrow> (Inl e, PHOTOS)
      | Inr fname \<Rightarrow>
          let groupId = or_default (form_groupId fd) [];
              thumbData = form_thumb fd
          in (case form_file fd of
                None \<Rightarrow> (Inr (errorResponse ''No file provided'' 400), PHOTOS)
              | Some file \<Rightarrow>
                  if num_gt (int (file_size file)) (maxSize env)
                  then (Inr (errorResponse
                               (''File too large (max ''
                                  @ template_string (MAX_FILE_SIZE_MB env) @ ''MB)'')
                               400), PHOTOS)
                  else store_photo sessionId meta file fname groupId thumbData
                         PHOTOS)))))"

subsection \<open>\<open>GET /api/session/:id/photo/:fname\<close> and \<open>.../thumb/:fname\<close>\<close>

definition get_photo :: "string \<Rightarrow> string \<Rightarrow> bucket \<Rightarrow> outcome" where
  "get_photo sessionId fname PHOTOS =
     (case decodeURIComponent fname of
        Inl e \<Rightarrow> (Inl e, PHOTOS)
      | Inr f \<Rightarrow>
          (case PHOTOS (photo_key sessionId f) of
             None \<Rightarrow> (Inr (errorResponse ''Photo not found'' 404), PHOTOS)
           | Some obj \<Rightarrow>
               (Inr (assetResponse (obj_body obj)
                       (or_default (contentType obj) ''image/jpeg'')), PHOTOS)))"

definition get_thumb :: "string \<Rightarrow> string \<Rightarrow> bucket \<Rightarrow> outcome" where
  "get_thumb sessionId fname PHOTOS =
     (case decodeURIComponent fname of
        Inl e \<Rightarrow> (Inl e, PHOTOS)
      | Inr f \<Rightarrow>
          (case PHOTOS (thumb_key sessionId f) of
             None \<Rightarrow>
               (case PHOTOS (photo_key sessionId f) of
                  None \<Rightarrow> (Inr (errorResponse ''Photo not found'' 404), PHOTOS)
                | Some fullObj \<Rightarrow>
                    (Inr (assetResponse (obj_body fullObj)
                            (or_default (contentType fullObj) ''image/jpeg'')), PHOTOS))
           | Some obj \<Rightarrow> (Inr (assetResponse (obj_body obj) ''image/jpeg''), PHOTOS)))"

subsection \<open>Routing and the \<open>catch\<close> block\<close>

definition session_route :: "string \<Rightarrow> (string \<times> string) option" where
  \<comment> \<open>\<open>^\/api\/session\/([a-zA-Z0-9]+)\<close>: the identifier and what follows it\<close>
  "session_route path =
     (let r = drop 13 path; sid = takeWhile is_alnum r
      in if take 13 path = ''/api/session/'' \<and> sid \<noteq> []
         then Some (sid, dropWhile is_alnum r) else None)"

definition sessionMatch :: "string \<Rightarrow> string option" where
  "sessionMatch path =
     (case session_route path of
        None \<Rightarrow> None
      | Some (sid, rest) \<Rightarrow> if rest = [] then Some sid else None)"

definition uploadMatch :: "string \<Rightarrow> string option" where
  "uploadMatch path =
     (case session_route path of
        None \<Rightarrow> None
      | Some (sid, rest) \<Rightarrow> if rest = ''/upload'' then Some sid else None)"

definition asset_name :: "string \<Rightarrow> bool" where
  \<comment> \<open>\<open>(.+)$\<close>: not empty, and no line terminator (a path name is ASCII)\<close>
  "asset_name f = (f \<noteq> [] \<and> (\<forall>c \<in> set f. c \<noteq> CHR 0x0A \<and> c \<noteq> CHR 0x0D))"

definition photoMatch :: "string \<Rightarrow> (string \<times> string) option" where
  "photoMatch path =
     (case session_route path of
        None \<Rightarrow> None
      | Some (sid, rest) \<Rightarrow>
          if take 7 rest = ''/photo/'' \<and> asset_name (drop 7 rest)
          then Some (sid, drop 7 rest) else None)"

definition thumbMatch :: "string \<Rightarrow> (string \<times> string) option" where
  "thumbMatch path =
     (case session_route path of
        None \<Rightarrow> None
      | Some (sid, rest) \<Rightarrow>
          if take 7 rest = ''/thumb/'' \<and> asset_name (drop 7 rest)
          then Some (sid, drop 7 rest) else None)"

definition on_method :: "request \<Rightarrow> string \<Rightarrow> 'a option \<Rightarrow> 'a option" where
  \<comment> \<open>\<open>match && request.method === m\<close>\<close>
  "on_method request m match = (if request_method request = m then match else None)"

definition route :: "env \<Rightarrow> runtime \<Rightarrow> request \<Rightarrow> bucket \<Rightarrow> outcome" where
  "route env rt request PHOTOS =
     (let path = pathname request
      in if path = ''/api/session'' \<and> request_method request = ''POST''
         then create_session env rt request PHOTOS
         else
     (case on_method request ''GET'' (sessionMatch path) of
        Some sessionId \<Rightarrow> get_session rt sessionId PHOTOS
      | None \<Rightarrow>
     (case on_method request ''POST'' (uploadMatch path) of
        Some sessionId \<Rightarrow> upload_photo env request sessionId PHOTOS
      | None \<Rightarrow>
     (case on_method request ''GET'' (photoMatch path) of
        Some (sessionId, fname) \<Rightarrow> get_photo sessionId fname PHOTOS
      | None \<Rightarrow>
     (case on_method request ''GET'' (thumbMatch path) of
        Some (sessionId, fname) \<Rightarrow> get_thumb sessionId fname PHOTOS
      | None \<Rightarrow> (Inr (errorResponse ''Not found'' 404), PHOTOS))))))"

definition catch :: "outcome \<Rightarrow> response \<times> bucket" where
  "catch out =
     (case out of
        (Inr r, PHOTOS) \<Rightarrow> (r, PHOTOS)
      | (Inl err, PHOTOS) \<Rightarrow>
          (errorResponse (''Internal server error: '' @ message err) 500, PHOTOS))"

definition fetch :: "env \<Rightarrow> runtime \<Rightarrow> request \<Rightarrow> bucket \<Rightarrow> response \<times> bucket" where
  "fetch env rt request PHOTOS =
     (if request_method request = ''OPTIONS''
      then (\<lparr>status = 200, headers = corsHeaders, payload = NoBody\<rparr>, PHOTOS)
      else catch (route env rt request PHOTOS))"

section \<open>The error kinds of the specification\<close>

datatype error_kind =
    NotFound | Expired | CorruptMetadata | QuotaExceeded | PayloadTooLarge | BadRequest
  | Internal

text \<open>
  The kind of error a response of the worker stands for, by its status (404, 410, 429,
  400, 500) and, among the two kinds that share status 400, by its message. The worker
  has no response for \<open>CorruptMetadata\<close>.
\<close>

definition error_kind :: "response \<Rightarrow> error_kind option" where
  "error_kind r =
     (case payload r of
        Json (ErrorObj msg) \<Rightarrow>
          (if status r = 404 then Some NotFound
           else if status r = 410 then Some Expired
           else if status r = 429 then Some QuotaExceeded
           else if status r = 400 then
             (if take 14 msg = ''File too large'' then Some PayloadTooLarge
              else Some BadRequest)
           else if status r = 500 then Some Internal
           else None)
      | _ \<Rightarrow> None)"

text \<open>A session identifier as the routes accept it: \<open>[a-zA-Z0-9]+\<close>.\<close>

definition is_session_id :: "string \<Rightarrow> bool" where
  "is_session_id sid = (sid \<noteq> [] \<and> (\<forall>c \<in> set sid. is_alnum c))"

text \<open>The Session document stored for an identifier, if there is a well-formed one.\<close>

definition stored_session :: "bucket \<Rightarrow> string \<Rightarrow> session option" where
  "stored_session PHOTOS sid =
     (case PHOTOS (meta_key sid) of
        None \<Rightarrow> None
      | Some obj \<Rightarrow> (case obj_body obj of JsonText meta \<Rightarrow> Some meta | Raw bs \<Rightarrow> None))"

text \<open>
  The invariant on what a key holds: a Session document counts as many photos as its
  list has.
\<close>

definition consistent :: "r2object option \<Rightarrow> bool" where
  "consistent x =
     (case x of
        None \<Rightarrow> True
      | Some obj \<Rightarrow>
          (case obj_body obj of
             JsonText meta \<Rightarrow> photoCount meta = length (photos meta)
           | Raw bs \<Rightarrow> True))"

text \<open>What \<open>JSON.parse\<close> accepts under the metadata key of an identifier, if anything is there.\<close>

definition metadata_parses :: "bucket \<Rightarrow> string \<Rightarrow> bool" where
  "metadata_parses PHOTOS sid =
     (case PHOTOS (meta_key sid) of
        None \<Rightarrow> True
      | Some obj \<Rightarrow> (case obj_body obj of JsonText meta \<Rightarrow> True | Raw bs \<Rightarrow> False))"

text \<open>
  The bucket after a sequence of invocations, each with its own environment, clock,
  random octets and request.
\<close>

fun run :: "(env \<times> runtime \<times> request) list \<Rightarrow> bucket \<Rightarrow> bucket" where
  "run [] PHOTOS = PHOTOS"
| "run ((env, rt, request) # rest) PHOTOS = run rest (snd (fetch env rt request PHOTOS))"

text \<open>The object under a metadata key: the document and the content type it is put with.\<close>

definition meta_object :: "session \<Rightarrow> r2object" where
  "meta_object meta =
     \<lparr>obj_body = JsonText meta, contentType = Some ''application/json'',
      customMetadata = []\<rparr>"

section \<open>Example data\<close>

definition env_default :: env where
  "env_default =
     \<lparr>SESSION_TTL_DAYS = None, MAX_PHOTOS_PER_SESSION = None, MAX_FILE_SIZE_MB = None\<rparr>"


definition rt_example :: runtime where
  "rt_example = \<lparr>clock = 1700000000000, random = (\<lambda>i. of_nat i)\<rparr>"

text \<open>A session with one photo, whose expiry lies before the clock of \<open>rt_example\<close>.\<close>

definition session_one :: session where
  "session_one =
     \<lparr>session_id = ''ABCDEFGH'', title = JStr ''Wedding'', photographer = JStr [],
      groups = JArr [], createdAt = 1000, expiresAt = 604801000, photoCount = 1,
      photos = [\<lparr>photo_fname = ''a.jpg'', photo_groupId = [], photo_size = 3,
                 photo_type = ''image/png''\<rparr>]\<rparr>"

definition bucket_one :: bucket where
  "bucket_one = Map.empty(''sessions/ABCDEFGH/meta.json'' \<mapsto> meta_object session_one)"

text \<open>A metadata key that holds the eight octets of the text \<open>not json\<close>.\<close>

definition bucket_corrupt :: bucket where
  "bucket_corrupt =
     Map.empty(''sessions/ABCDEFGH/meta.json'' \<mapsto>
       \<lparr>obj_body = Raw [110, 111, 116, 32, 106, 115, 111, 110],
        contentType = Some ''application/json'', customMetadata = []\<rparr>)"

definition file_small :: file_part where
  "file_small =
     \<lparr>file_name = ''b.jpg'', file_size = 3, file_type = ''image/jpeg'',
      file_stream = [1, 2, 3]\<rparr>"

definition form_small :: form where
  "form_small =
     \<lparr>form_file = Some file_small, form_fname = None, form_groupId = None,
      form_thumb = None\<rparr>"

definition form_empty :: form where
  "form_empty =
     \<lparr>form_file = None, form_fname = None, form_groupId = None, form_thumb = None\<rparr>"

definition upload_request :: "string \<Rightarrow> form \<Rightarrow> request" where
  "upload_request sid fd =
     \<lparr>request_method = ''POST'', pathname = ''/api/session/'' @ sid @ ''/upload'', json = None,
      formData = Some fd\<rparr>"

definition get_request :: "string \<Rightarrow> request" where
  "get_request path = \<lparr>request_method = ''GET'', pathname = path, json = None, formData = None\<rparr>"

text \<open>The bucket of \<open>bucket_one\<close> with the photo \<open>a.jpg\<close> stored, without a thumbnail.\<close>

definition bucket_photo_only :: bucket where
  "bucket_photo_only =
     bucket_one(''sessions/ABCDEFGH/photos/a.jpg'' \<mapsto>
       \<lparr>obj_body = Raw [1, 2, 3], contentType = Some ''image/png'',
        customMetadata = [(''groupId'', []), (''originalName'', ''a.jpg'')]\<rparr>)"

text \<open>The same with a thumbnail stored as well.\<close>

definition bucket_assets :: bucket where
  "bucket_assets =
     bucket_one(''sessions/ABCDEFGH/photos/a.jpg'' \<mapsto>
       \<lparr>obj_body = Raw [1, 2, 3], contentType = Some ''image/png'',
        customMetadata = [(''groupId'', []), (''originalName'', ''a.jpg'')]\<rparr>,
      ''sessions/ABCDEFGH/thumbs/a.jpg'' \<mapsto>
       \<lparr>obj_body = Raw [9, 9], contentType = Some ''image/jpeg'', customMetadata = []\<rparr>)"

definition create_request :: request where
  "create_request =
     \<lparr>request_method = ''POST'', pathname = ''/api/session'',
      json = Some (JObj [(''title'', JStr ''Wedding'')]), formData = None\<rparr>"

text \<open>An upload whose \<open>fname\<close> entry climbs out of the session's directory.\<close>

definition form_traversal :: form where
  "form_traversal =
     \<lparr>form_file = Some file_small, form_fname = Some ''../../other/meta.json'',
      form_groupId = None, form_thumb = Some (ThumbBlob [7, 7])\<rparr>"

text \<open>A second file under the name of the photo that \<open>session_one\<close> already lists.\<close>

definition file_again :: file_part where
  "file_again =
     \<lparr>file_name = ''a.jpg'', file_size = 2, file_type = ''image/jpeg'',
      file_stream = [4, 5]\<rparr>"

definition form_again :: form where
  "form_again =
     \<lparr>form_file = Some file_again, form_fname = None, form_groupId = None,
      form_thumb = None\<rparr>"

text \<open>A file one octet above 25 MiB.\<close>

definition file_big :: file_part where
  "file_big =
     \<lparr>file_name = ''big.jpg'', file_size = 26214401, file_type = ''image/jpeg'',
      file_stream = replicate 26214401 0\<rparr>"

definition form_big :: form where
  "form_big =
     \<lparr>form_file = Some file_big, form_fname = None, form_groupId = None,
      form_thumb = None\<rparr>"

section \<open>Routing\<close>

lemma slash_not_alnum: "\<not> is_alnum CHR ''/''"
  by (simp add: is_alnum_def)

lemma session_route_id:
  assumes "is_session_id sid" and "rest = [] \<or> \<not> is_alnum (hd rest)"
  shows "session_route (''/api/session/'' @ sid @ rest) = Some (sid, rest)"
proof -
  have all: "\<forall>c \<in> set sid. is_alnum c" and ne: "sid \<noteq> []"
    using assms(1) by (simp_all add: is_session_id_def)
  have r: "takeWhile is_alnum rest = []" "dropWhile is_alnum rest = rest"
    using assms(2) by (cases rest; auto)+
  have t: "takeWhile is_alnum (sid @ rest) = sid"
    using all r by (simp add: takeWhile_append2)
  have d: "dropWhile is_alnum (sid @ rest) = rest"
    using all r by (simp add: dropWhile_append2)
  show ?thesis
    using t d ne by (simp add: session_route_def)
qed

lemma sessionMatch_id: "is_session_id sid \<Longrightarrow> sessionMatch (''/api/session/'' @ sid) = Some sid"
  using session_route_id [of sid "[]"] by (simp add: sessionMatch_def)

lemma uploadMatch_id:
  "is_session_id sid \<Longrightarrow> uploadMatch (''/api/session/'' @ sid @ ''/upload'') = Some sid"
  using session_route_id [of sid "''/upload''"] by (simp add: uploadMatch_def slash_not_alnum)

lemma photoMatch_id:
  "is_session_id sid \<Longrightarrow> asset_name f
    \<Longrightarrow> photoMatch (''/api/session/'' @ sid @ ''/photo/'' @ f) = Some (sid, f)"
  using session_route_id [of sid "''/photo/'' @ f"] by (simp add: photoMatch_def slash_not_alnum)

lemma photoMatch_thumb:
  "is_session_id sid \<Longrightarrow> photoMatch (''/api/session/'' @ sid @ ''/thumb/'' @ f) = None"
  using session_route_id [of sid "''/thumb/'' @ f"] by (simp add: photoMatch_def slash_not_alnum)

lemma thumbMatch_id:
  "is_session_id sid \<Longrightarrow> asset_name f
    \<Longrightarrow> thumbMatch (''/api/session/'' @ sid @ ''/thumb/'' @ f) = Some (sid, f)"
  using session_route_id [of sid "''/thumb/'' @ f"] by (simp add: thumbMatch_def slash_not_alnum)

lemma route_create:
  "request_method request = ''POST'' \<Longrightarrow> pathname request = ''/api/session''
    \<Longrightarrow> route env rt request PHOTOS = create_session env rt request PHOTOS"
  by (simp add: route_def)

lemma route_get_session:
  assumes "is_session_id sid" "request_method request = ''GET''"
    "pathname request = ''/api/session/'' @ sid"
  shows "route env rt request PHOTOS = get_session rt sid PHOTOS"
  using assms sessionMatch_id [OF assms(1)] by (simp add: route_def on_method_def)

lemma route_upload:
  assumes "is_session_id sid" "request_method request = ''POST''"
    "pathname request = ''/api/session/'' @ sid @ ''/upload''"
  shows "route env rt request PHOTOS = upload_photo env request sid PHOTOS"
  using assms uploadMatch_id [OF assms(1)] by (simp add: route_def on_method_def)

lemma route_photo:
  assumes "is_session_id sid" "asset_name f" "request_method request = ''GET''"
    "pathname request = ''/api/session/'' @ sid @ ''/photo/'' @ f"
  shows "route env rt request PHOTOS = get_photo sid f PHOTOS"
proof -
  have "sessionMatch (pathname request) = None"
    using session_route_id [of sid "''/photo/'' @ f"] assms
    by (simp add: sessionMatch_def slash_not_alnum)
  then show ?thesis
    using assms photoMatch_id [OF assms(1,2)] by (simp add: route_def on_method_def)
qed

lemma route_thumb:
  assumes "is_session_id sid" "asset_name f" "request_method request = ''GET''"
    "pathname request = ''/api/session/'' @ sid @ ''/thumb/'' @ f"
  shows "route env rt request PHOTOS = get_thumb sid f PHOTOS"
proof -
  have "sessionMatch (pathname request) = None"
    using session_route_id [of sid "''/thumb/'' @ f"] assms
    by (simp add: sessionMatch_def slash_not_alnum)
  then show ?thesis
    using assms photoMatch_thumb [OF assms(1)] thumbMatch_id [OF assms(1,2)]
    by (simp add: route_def on_method_def)
qed

section \<open>Responses and the \<open>catch\<close> block\<close>

lemma status_errorResponse: "status (errorResponse msg st) = st"
  by (simp add: errorResponse_def jsonResponse_def)

lemma status_jsonResponse: "status (jsonResponse d st) = st"
  by (simp add: jsonResponse_def)

lemma catch_Inr: "catch (Inr r, P) = (r, P)"
  by (simp add: catch_def)

lemma catch_Inl: "catch (Inl e, P) = (errorResponse (''Internal server error: '' @ message e) 500, P)"
  by (simp add: catch_def)

lemma snd_catch: "snd (catch out) = snd out"
  by (cases out; cases "fst out") (auto simp: catch_def)

lemma catch_200:
  "catch out = (response, P) \<Longrightarrow> status response = 200 \<Longrightarrow> out = (Inr response, P)"
  by (cases out; cases "fst out") (auto simp: catch_def status_errorResponse)

lemma fetch_upload:
  assumes "is_session_id sid" "request_method request = ''POST''"
    "pathname request = ''/api/session/'' @ sid @ ''/upload''"
  shows "fetch env rt request PHOTOS = catch (upload_photo env request sid PHOTOS)"
  using assms route_upload [OF assms] by (simp add: fetch_def)

lemma fetch_get_session:
  assumes "is_session_id sid" "request_method request = ''GET''" "pathname request = ''/api/session/'' @ sid"
  shows "fetch env rt request PHOTOS = catch (get_session rt sid PHOTOS)"
  using assms route_get_session [OF assms] by (simp add: fetch_def)

section \<open>Configuration\<close>

lemmas eval_parseInt = parseInt_def is_space_def radix_digit_def digits_value_def is_digit_def or_default_def

lemma maxPhotos_default: "MAX_PHOTOS_PER_SESSION env = None \<Longrightarrow> maxPhotos env = Some 50"
  by (simp add: maxPhotos_def eval_parseInt)

lemma maxSize_default: "MAX_FILE_SIZE_MB env = None \<Longrightarrow> maxSize env = Some 26214400"
  by (simp add: maxSize_def eval_parseInt)

section \<open>Keys and stored documents\<close>

lemma photo_key_neq_meta_key: "photo_key sid f \<noteq> meta_key sid"
  by (simp add: photo_key_def meta_key_def)

lemma thumb_key_neq_meta_key: "thumb_key sid f \<noteq> meta_key sid"
  by (simp add: thumb_key_def meta_key_def)

lemma thumb_key_neq_photo_key: "thumb_key sid f \<noteq> photo_key sid g"
  by (simp add: thumb_key_def photo_key_def)

lemma stored_sessionD:
  "stored_session PHOTOS sid = Some meta \<Longrightarrow>
     \<exists>obj. PHOTOS (meta_key sid) = Some obj \<and> obj_body obj = JsonText meta"
  by (auto simp: stored_session_def split: option.splits blob.splits)

lemma stored_session_eq:
  "stored_session PHOTOS sid = Some meta \<longleftrightarrow>
     (\<exists>obj. PHOTOS (meta_key sid) = Some obj \<and> obj_body obj = JsonText meta)"
  by (auto simp: stored_session_def split: option.splits blob.splits)

section \<open>The steps of an upload\<close>


lemma upload_fname_file:
  "form_file fd = Some file \<Longrightarrow>
     upload_fname fd = Inr (if or_default (form_fname fd) [] \<noteq> [] then or_default (form_fname fd) [] else file_name file)"
  by (simp add: upload_fname_def Let_def)

lemma save_thumb_other:
  "save_thumb sid fname t P = Inr P2 \<Longrightarrow> key \<noteq> thumb_key sid fname \<Longrightarrow> P2 key = P key"
  by (auto simp: save_thumb_def PHOTOS_put_def split: option.splits if_splits sum.splits)

lemma save_thumb_raw:
  "save_thumb sid fname t P = Inr P2 \<Longrightarrow>
     P2 = P \<or> (\<exists>bs. P2 = PHOTOS_put (thumb_key sid fname) (Raw bs) ''image/jpeg'' [] P)"
  by (auto simp: save_thumb_def split: option.splits if_splits sum.splits)

lemma upload_too_large:
  assumes "stored_session PHOTOS sid = Some meta"
    "\<not> num_ge (int (photoCount meta)) (maxPhotos env)"
    "formData request = Some fd" "form_file fd = Some f"
    "num_gt (int (file_size f)) (maxSize env)"
  shows "upload_photo env request sid PHOTOS =
    (Inr (errorResponse (''File too large (max '' @ template_string (MAX_FILE_SIZE_MB env) @ ''MB)'') 400), PHOTOS)"
  using stored_sessionD [OF assms(1)] assms(2-) upload_fname_file [OF assms(4)]
  by (auto simp: upload_photo_def)

lemma upload_no_file_no_fname:
  assumes "stored_session PHOTOS sid = Some meta"
    "\<not> num_ge (int (photoCount meta)) (maxPhotos env)"
    "formData request = Some fd" "form_file fd = None" "or_default (form_fname fd) [] = []"
  shows "upload_photo env request sid PHOTOS = (Inl TypeError, PHOTOS)"
  using stored_sessionD [OF assms(1)] assms(2-)
  by (auto simp: upload_photo_def upload_fname_def)

lemma upload_no_file_with_fname:
  assumes "stored_session PHOTOS sid = Some meta"
    "\<not> num_ge (int (photoCount meta)) (maxPhotos env)"
    "formData request = Some fd" "form_file fd = None" "or_default (form_fname fd) [] \<noteq> []"
  shows "upload_photo env request sid PHOTOS = (Inr (errorResponse ''No file provided'' 400), PHOTOS)"
  using stored_sessionD [OF assms(1)] assms(2-)
  by (auto simp: upload_photo_def upload_fname_def)

lemma upload_runs:
  assumes "stored_session PHOTOS sid = Some meta"
    "\<not> num_ge (int (photoCount meta)) (maxPhotos env)"
    "formData request = Some fd" "form_file fd = Some f"
    "\<not> num_gt (int (file_size f)) (maxSize env)"
    "upload_fname fd = Inr fname"
  shows "upload_photo env request sid PHOTOS =
           store_photo sid meta f fname (or_default (form_groupId fd) []) (form_thumb fd) PHOTOS"
  using stored_sessionD [OF assms(1)] assms(2-)
  by (auto simp: upload_photo_def)

lemma store_photo_ok:
  assumes "save_thumb sid fname thumbData (PHOTOS(photo_key sid fname \<mapsto> photo_object fname groupId f))
             = Inr PHOTOS2"
  shows "store_photo sid meta f fname groupId thumbData PHOTOS =
     (Inr (jsonResponse (UploadedObj True fname (photoCount meta + 1)) 200),
      PHOTOS2(meta_key sid \<mapsto> meta_object (add_photo meta (photo_entry fname groupId f))))"
  using assms
  by (simp add: store_photo_def PHOTOS_put_def photo_object_def Let_def meta_object_def
        JSON_stringify_def add_photo_def)

lemma upload_success:
  assumes "upload_photo env request sid PHOTOS = (Inr response, PHOTOS')"
    and "status response = 200"
  shows "\<exists>meta fd f fname PHOTOS2.
    stored_session PHOTOS sid = Some meta
    \<and> \<not> num_ge (int (photoCount meta)) (maxPhotos env)
    \<and> formData request = Some fd \<and> form_file fd = Some f
    \<and> upload_fname fd = Inr fname
    \<and> \<not> num_gt (int (file_size f)) (maxSize env)
    \<and> save_thumb sid fname (form_thumb fd)
       (PHOTOS(photo_key sid fname \<mapsto> photo_object fname (or_default (form_groupId fd) []) f))
       = Inr PHOTOS2
    \<and> PHOTOS' = PHOTOS2(meta_key sid \<mapsto> meta_object
        (add_photo meta (photo_entry fname (or_default (form_groupId fd) []) f)))
    \<and> response = jsonResponse (UploadedObj True fname (photoCount meta + 1)) 200"
proof -
  from assms obtain obj where obj: "PHOTOS (meta_key sid) = Some obj"
    by (auto simp: upload_photo_def status_errorResponse split: option.splits)
  from assms obj obtain meta where meta: "obj_body obj = JsonText meta"
    by (cases "obj_body obj") (auto simp: upload_photo_def)
  have st: "stored_session PHOTOS sid = Some meta"
    using obj meta by (simp add: stored_session_eq)
  have quota: "\<not> num_ge (int (photoCount meta)) (maxPhotos env)"
    using assms obj meta by (auto simp: upload_photo_def status_errorResponse)
  from assms obj meta quota obtain fd where fd: "formData request = Some fd"
    by (auto simp: upload_photo_def split: option.splits)
  from assms obj meta quota fd obtain fname where fname: "upload_fname fd = Inr fname"
    by (auto simp: upload_photo_def split: sum.splits)
  from assms obj meta quota fd fname obtain f where f: "form_file fd = Some f"
    by (auto simp: upload_photo_def status_errorResponse split: option.splits)
  have size: "\<not> num_gt (int (file_size f)) (maxSize env)"
    using assms obj meta quota fd fname f
    by (auto simp: upload_photo_def status_errorResponse)
  have sp: "store_photo sid meta f fname (or_default (form_groupId fd) []) (form_thumb fd) PHOTOS
            = (Inr response, PHOTOS')"
    using assms obj meta quota fd fname f size by (simp add: upload_photo_def)
  then obtain PHOTOS2 where th: "save_thumb sid fname (form_thumb fd)
       (PHOTOS(photo_key sid fname \<mapsto> photo_object fname (or_default (form_groupId fd) []) f))
       = Inr PHOTOS2"
    by (auto simp: store_photo_def PHOTOS_put_def photo_object_def Let_def split: sum.splits)
  have "PHOTOS' = PHOTOS2(meta_key sid \<mapsto> meta_object
        (add_photo meta (photo_entry fname (or_default (form_groupId fd) []) f)))"
    and "response = jsonResponse (UploadedObj True fname (photoCount meta + 1)) 200"
    using sp th
    by (auto simp: store_photo_def PHOTOS_put_def photo_object_def Let_def meta_object_def
        JSON_stringify_def add_photo_def)
  with st quota fd f fname size th show ?thesis by blast
qed

section \<open>Reading a session\<close>

lemma get_session_expired:
  assumes "stored_session PHOTOS sid = Some meta" "expiresAt meta < clock rt"
  shows "get_session rt sid PHOTOS = (Inr (errorResponse ''Session expired'' 410), PHOTOS)"
  using stored_sessionD [OF assms(1)] assms(2) by (auto simp: get_session_def)

lemma get_session_raw:
  assumes "PHOTOS (meta_key sid) = Some obj" "obj_body obj = Raw bs"
  shows "get_session rt sid PHOTOS = (Inl SyntaxError, PHOTOS)"
  using assms by (simp add: get_session_def)

section \<open>The invariant of the stored documents\<close>

lemma consistent_raw: "consistent (Some \<lparr>obj_body = Raw bs, contentType = ct, customMetadata = cm\<rparr>)"
  by (simp add: consistent_def)

lemma consistent_put_raw:
  "consistent (P key) \<Longrightarrow> consistent (PHOTOS_put k (Raw bs) ct cm P key)"
  by (simp add: PHOTOS_put_def consistent_def)

lemma consistent_put_json:
  "consistent (P key) \<Longrightarrow> (key = k \<Longrightarrow> photoCount m = length (photos m))
    \<Longrightarrow> consistent (PHOTOS_put k (JSON_stringify m) ct cm P key)"
  by (simp add: PHOTOS_put_def consistent_def JSON_stringify_def)

lemma consistent_save_thumb:
  "save_thumb sid fname t P = Inr P2 \<Longrightarrow> consistent (P key) \<Longrightarrow> consistent (P2 key)"
  using save_thumb_raw [of sid fname t P P2] by (auto simp: consistent_put_raw)

lemma consistent_add_photo:
  "photoCount m = length (photos m) \<Longrightarrow> photoCount (add_photo m r) = length (photos (add_photo m r))"
  by (simp add: add_photo_def)

lemma consistent_store_photo:
  assumes "consistent (P key)" "key = meta_key sid \<Longrightarrow> photoCount meta = length (photos meta)"
  shows "consistent (snd (store_photo sid meta f fname groupId t P) key)"
proof -
  let ?P1 = "PHOTOS_put (photo_key sid fname) (Raw (file_stream f))
                      (or_default (Some (file_type f)) ''image/jpeg'')
                      [(''groupId'', groupId), (''originalName'', fname)] P"
  have c1: "consistent (?P1 key)" using assms(1) by (rule consistent_put_raw)
  show ?thesis
  proof (cases "save_thumb sid fname t ?P1")
    case (Inl e)
    then show ?thesis using c1 by (simp add: store_photo_def Let_def)
  next
    case (Inr P2)
    have c2: "consistent (P2 key)" using Inr c1 by (rule consistent_save_thumb)
    show ?thesis using Inr c2 assms(2)
      by (simp add: store_photo_def Let_def consistent_put_json consistent_add_photo)
  qed
qed

lemma consistent_upload_photo:
  assumes "consistent (P key)"
  shows "consistent (snd (upload_photo env request sid P) key)"
proof (cases "\<exists>meta. stored_session P sid = Some meta")
  case False
  then have "snd (upload_photo env request sid P) = P"
    by (auto simp: upload_photo_def stored_session_def split: option.splits blob.splits)
  then show ?thesis using assms by simp
next
  case True
  then obtain meta where st: "stored_session P sid = Some meta" by blast
  then obtain obj where obj: "P (meta_key sid) = Some obj" "obj_body obj = JsonText meta"
    using stored_sessionD by blast
  have m: "key = meta_key sid \<Longrightarrow> photoCount meta = length (photos meta)"
    using assms obj by (simp add: consistent_def)
  have sp: "consistent (snd (store_photo sid meta f fname g t P) key)" for f fname g t
    using assms m by (rule consistent_store_photo [where P = P and key = key and sid = sid])
  show ?thesis
    using obj assms sp
    by (auto simp: upload_photo_def Let_def split: option.splits sum.splits)
qed

lemma consistent_create_session:
  assumes "consistent (P key)"
  shows "consistent (snd (create_session env rt request P) key)"
  using assms
  by (auto simp: create_session_def Let_def consistent_put_json split: option.splits sum.splits)

lemma snd_get_session: "snd (get_session rt sid P) = P"
  by (auto simp: get_session_def split: option.splits sum.splits)

lemma snd_get_photo: "snd (get_photo sid f P) = P"
  by (auto simp: get_photo_def split: option.splits sum.splits)

lemma snd_get_thumb: "snd (get_thumb sid f P) = P"
  by (auto simp: get_thumb_def split: option.splits sum.splits)

lemma consistent_route:
  assumes "consistent (P key)"
  shows "consistent (snd (route env rt request P) key)"
  using assms
  by (auto simp: route_def Let_def consistent_create_session consistent_upload_photo
      snd_get_session snd_get_photo snd_get_thumb split: option.splits)

lemma consistent_fetch:
  "consistent (P key) \<Longrightarrow> consistent (snd (fetch env rt request P) key)"
  by (simp add: fetch_def snd_catch consistent_route)

lemma run_consistent: "consistent (PHOTOS key) \<Longrightarrow> consistent (run steps PHOTOS key)"
  by (induction steps arbitrary: PHOTOS) (auto simp: consistent_fetch)

lemma run_from_empty: "consistent (run steps Map.empty key)"
  by (rule run_consistent) (simp add: consistent_def)

section \<open>Metadata keys hold Session documents\<close>

text \<open>
  The worker never puts raw octets under the metadata key of a session identifier: the
  keys of photos and thumbnails differ from every such key. So what \<open>JSON.parse\<close>
  rejects under a metadata key was put there by someone else.
\<close>

lemma session_route_is_id: "session_route path = Some (sid, rest) \<Longrightarrow> is_session_id sid"
  by (auto simp: session_route_def is_session_id_def Let_def split: if_splits dest: set_takeWhileD)

lemma uploadMatch_is_id: "uploadMatch path = Some sid \<Longrightarrow> is_session_id sid"
  by (auto simp: uploadMatch_def split: option.splits if_splits dest: session_route_is_id)

lemma id_before_slash:
  assumes "is_session_id a" "is_session_id b" "a @ CHR ''/'' # x = b @ CHR ''/'' # y"
  shows "a = b \<and> x = y"
proof -
  have "takeWhile is_alnum (a @ CHR ''/'' # x) = a" "takeWhile is_alnum (b @ CHR ''/'' # y) = b"
    using assms(1,2) by (simp_all add: is_session_id_def takeWhile_tail slash_not_alnum)
  then have "a = b" using assms(3) by simp
  then show ?thesis using assms(3) by simp
qed

lemma photo_key_neq_meta_key_any:
  "is_session_id a \<Longrightarrow> is_session_id b \<Longrightarrow> photo_key a f \<noteq> meta_key b"
  using id_before_slash [of a b "''photos/'' @ f" "''meta.json''"]
  by (auto simp: photo_key_def meta_key_def)

lemma thumb_key_neq_meta_key_any:
  "is_session_id a \<Longrightarrow> is_session_id b \<Longrightarrow> thumb_key a f \<noteq> meta_key b"
  using id_before_slash [of a b "''thumbs/'' @ f" "''meta.json''"]
  by (auto simp: thumb_key_def meta_key_def)

lemma metadata_parses_put_other:
  "key \<noteq> meta_key sid \<Longrightarrow> metadata_parses PHOTOS sid
     \<Longrightarrow> metadata_parses (PHOTOS_put key v ct cm PHOTOS) sid"
  by (simp add: metadata_parses_def PHOTOS_put_def)

lemma metadata_parses_put_json:
  "metadata_parses PHOTOS sid
     \<Longrightarrow> metadata_parses (PHOTOS_put key (JSON_stringify meta) ct cm PHOTOS) sid"
  by (simp add: metadata_parses_def PHOTOS_put_def JSON_stringify_def)

lemma metadata_parses_store_photo:
  assumes "is_session_id sid" "is_session_id a" "metadata_parses PHOTOS sid"
  shows "metadata_parses (snd (store_photo a meta f fname g t PHOTOS)) sid"
proof -
  let ?P1 = "PHOTOS_put (photo_key a fname) (Raw (file_stream f))
                      (or_default (Some (file_type f)) ''image/jpeg'')
                      [(''groupId'', g), (''originalName'', fname)] PHOTOS"
  have p1: "metadata_parses ?P1 sid"
    using assms photo_key_neq_meta_key_any [of a sid fname]
    by (simp add: metadata_parses_put_other)
  show ?thesis
  proof (cases "save_thumb a fname t ?P1")
    case (Inl e)
    then show ?thesis using p1 by (simp add: store_photo_def Let_def)
  next
    case (Inr P2)
    have "metadata_parses P2 sid"
      using save_thumb_raw [OF Inr] p1 assms(1,2) thumb_key_neq_meta_key_any [of a sid fname]
      by (auto simp: metadata_parses_put_other)
    then show ?thesis using Inr
      by (simp add: store_photo_def Let_def metadata_parses_put_json)
  qed
qed

lemma metadata_parses_upload:
  assumes "is_session_id sid" "is_session_id a" "metadata_parses PHOTOS sid"
  shows "metadata_parses (snd (upload_photo env request a PHOTOS)) sid"
  using assms(3) metadata_parses_store_photo [OF assms]
  by (auto simp: upload_photo_def Let_def split: option.splits sum.splits)

lemma metadata_parses_create:
  "metadata_parses PHOTOS sid \<Longrightarrow> metadata_parses (snd (create_session env rt request PHOTOS)) sid"
  by (auto simp: create_session_def Let_def metadata_parses_put_json split: option.splits sum.splits)

lemma metadata_parses_fetch:
  assumes "is_session_id sid" "metadata_parses PHOTOS sid"
  shows "metadata_parses (snd (fetch env rt request PHOTOS)) sid"
  using assms
  by (auto simp: fetch_def snd_catch route_def Let_def on_method_def metadata_parses_create
      metadata_parses_upload uploadMatch_is_id snd_get_session snd_get_photo snd_get_thumb
      split: option.splits)

lemma metadata_parses_run:
  "is_session_id sid \<Longrightarrow> metadata_parses PHOTOS sid \<Longrightarrow> metadata_parses (run steps PHOTOS) sid"
  by (induction steps arbitrary: PHOTOS) (auto simp: metadata_parses_fetch)

lemma worker_metadata_parses:
  "is_session_id sid \<Longrightarrow> metadata_parses (run steps Map.empty) sid"
  by (rule metadata_parses_run) (simp_all add: metadata_parses_def)

section \<open>The other routes through \<open>fetch\<close>\<close>

lemma fetch_thumb:
  assumes "is_session_id sid" "asset_name f" "request_method request = ''GET''"
    "pathname request = ''/api/session/'' @ sid @ ''/thumb/'' @ f"
  shows "fetch env rt request PHOTOS = catch (get_thumb sid f PHOTOS)"
  using assms route_thumb [OF assms] by (simp add: fetch_def)

lemma fetch_photo:
  assumes "is_session_id sid" "asset_name f" "request_method request = ''GET''"
    "pathname request = ''/api/session/'' @ sid @ ''/photo/'' @ f"
  shows "fetch env rt request PHOTOS = catch (get_photo sid f PHOTOS)"
  using assms route_photo [OF assms] by (simp add: fetch_def)

lemma error_kind_404: "error_kind (errorResponse msg 404) = Some NotFound"
  by (simp add: error_kind_def errorResponse_def jsonResponse_def)

lemma fetch_create:
  assumes "request_method request = ''POST''" "pathname request = ''/api/session''"
  shows "fetch env rt request PHOTOS = catch (create_session env rt request PHOTOS)"
  using assms route_create [OF assms] by (simp add: fetch_def)

lemma create_success:
  assumes "create_session env rt request PHOTOS = (Inr response, PHOTOS')"
  shows "\<exists>meta. PHOTOS' = PHOTOS(meta_key (generateId (random rt) 8) \<mapsto> meta_object meta)
           \<and> session_id meta = generateId (random rt) 8
           \<and> photoCount meta = 0 \<and> photos meta = []
           \<and> response = jsonResponse (CreatedObj (session_id meta) (expiresAt meta)) 200"
  using assms
  by (auto simp: create_session_def Let_def PHOTOS_put_def JSON_stringify_def meta_object_def
      split: option.splits sum.splits)

lemma stored_session_meta_object:
  "stored_session (P(meta_key sid \<mapsto> meta_object meta)) sid = Some meta"
  by (simp add: stored_session_def meta_object_def)

section \<open>Accepted uploads\<close>

lemma upload_fname_or_default:
  "form_file fd = Some f \<Longrightarrow> upload_fname fd = Inr (or_default (form_fname fd) (file_name f))"
  by (simp add: upload_fname_def or_default_def split: option.splits)

lemma save_thumb_decodes:
  assumes "\<And>t. thumbData = Some t \<Longrightarrow> \<exists>bs. thumb_body t = Inr bs"
  shows "\<exists>P2. save_thumb sid fname thumbData P = Inr P2"
proof (cases thumbData)
  case None
  then show ?thesis by (simp add: save_thumb_def)
next
  case (Some t)
  then obtain bs where "thumb_body t = Inr bs" using assms by blast
  then show ?thesis using Some by (simp add: save_thumb_def)
qed

lemma upload_accepted:
  assumes "stored_session PHOTOS sid = Some meta"
    "\<not> num_ge (int (photoCount meta)) (maxPhotos env)"
    "formData request = Some fd" "form_file fd = Some f"
    "\<not> num_gt (int (file_size f)) (maxSize env)"
    "\<And>t. form_thumb fd = Some t \<Longrightarrow> \<exists>bs. thumb_body t = Inr bs"
  shows "\<exists>PHOTOS2. upload_photo env request sid PHOTOS =
     (Inr (jsonResponse (UploadedObj True (or_default (form_fname fd) (file_name f))
             (photoCount meta + 1)) 200),
      PHOTOS2(meta_key sid \<mapsto> meta_object (add_photo meta
         (photo_entry (or_default (form_fname fd) (file_name f))
            (or_default (form_groupId fd) []) f))))"
proof -
  let ?fname = "or_default (form_fname fd) (file_name f)"
  let ?g = "or_default (form_groupId fd) []"
  obtain P2 where P2: "save_thumb sid ?fname (form_thumb fd)
      (PHOTOS(photo_key sid ?fname \<mapsto> photo_object ?fname ?g f)) = Inr P2"
    using save_thumb_decodes [of "form_thumb fd"] assms(6) by blast
  show ?thesis
    using upload_runs [OF assms(1-5) upload_fname_or_default [OF assms(4)]]
      store_photo_ok [OF P2, of meta] by auto
qed

lemma fetch_upload_accepted:
  assumes "is_session_id sid" "request_method request = ''POST''"
    "pathname request = ''/api/session/'' @ sid @ ''/upload''"
    "stored_session PHOTOS sid = Some meta"
    "\<not> num_ge (int (photoCount meta)) (maxPhotos env)"
    "formData request = Some fd" "form_file fd = Some f"
    "\<not> num_gt (int (file_size f)) (maxSize env)"
    "\<And>t. form_thumb fd = Some t \<Longrightarrow> \<exists>bs. thumb_body t = Inr bs"
  shows "fst (fetch env rt request PHOTOS) =
           jsonResponse (UploadedObj True (or_default (form_fname fd) (file_name f))
             (photoCount meta + 1)) 200"
proof -
  obtain P2 where "upload_photo env request sid PHOTOS =
     (Inr (jsonResponse (UploadedObj True (or_default (form_fname fd) (file_name f))
             (photoCount meta + 1)) 200),
      P2(meta_key sid \<mapsto> meta_object (add_photo meta
         (photo_entry (or_default (form_fname fd) (file_name f))
            (or_default (form_groupId fd) []) f))))"
    using upload_accepted [OF assms(4-9)] by blast
  then show ?thesis
    using fetch_upload [OF assms(1-3), of env rt PHOTOS] by (simp add: catch_def)
qed

lemma fetch_upload_accepted_stored:
  assumes "is_session_id sid" "request_method request = ''POST''"
    "pathname request = ''/api/session/'' @ sid @ ''/upload''"
    "stored_session PHOTOS sid = Some meta"
    "\<not> num_ge (int (photoCount meta)) (maxPhotos env)"
    "formData request = Some fd" "form_file fd = Some f"
    "\<not> num_gt (int (file_size f)) (maxSize env)"
    "\<And>t. form_thumb fd = Some t \<Longrightarrow> \<exists>bs. thumb_body t = Inr bs"
  shows "stored_session (snd (fetch env rt request PHOTOS)) sid =
           Some (add_photo meta (photo_entry (or_default (form_fname fd) (file_name f))
                   (or_default (form_groupId fd) []) f))"
proof -
  obtain P2 where "upload_photo env request sid PHOTOS =
     (Inr (jsonResponse (UploadedObj True (or_default (form_fname fd) (file_name f))
             (photoCount meta + 1)) 200),
      P2(meta_key sid \<mapsto> meta_object (add_photo meta
         (photo_entry (or_default (form_fname fd) (file_name f))
            (or_default (form_groupId fd) []) f))))"
    using upload_accepted [OF assms(4-9)] by blast
  then show ?thesis
    using fetch_upload [OF assms(1-3), of env rt PHOTOS]
    by (simp add: catch_def stored_session_meta_object)
qed

lemma save_thumb_given:
  assumes "save_thumb sid fname thumbData P = Inr P2" "thumb_given thumbData"
  shows "\<exists>t bs. thumbData = Some t \<and> thumb_body t = Inr bs
           \<and> P2 = P(thumb_key sid fname \<mapsto>
                \<lparr>obj_body = Raw bs, contentType = Some ''image/jpeg'', customMetadata = []\<rparr>)"
  using assms
  by (auto simp: save_thumb_def PHOTOS_put_def thumb_given_def split: option.splits sum.splits)

text \<open>What a successful upload request leaves behind.\<close>

lemma fetch_upload_success:
  assumes "is_session_id sid" "request_method request = ''POST''"
    "pathname request = ''/api/session/'' @ sid @ ''/upload''"
    "fetch env rt request PHOTOS = (response, PHOTOS')" "status response = 200"
  shows "\<exists>meta fd f fname groupId.
    stored_session PHOTOS sid = Some meta
    \<and> formData request = Some fd \<and> form_file fd = Some f
    \<and> fname = or_default (form_fname fd) (file_name f)
    \<and> groupId = or_default (form_groupId fd) []
    \<and> PHOTOS' (photo_key sid fname) = Some (photo_object fname groupId f)
    \<and> (thumb_given (form_thumb fd) \<longrightarrow>
         (\<exists>t bs. form_thumb fd = Some t \<and> thumb_body t = Inr bs
           \<and> PHOTOS' (thumb_key sid fname) =
               Some \<lparr>obj_body = Raw bs, contentType = Some ''image/jpeg'', customMetadata = []\<rparr>))
    \<and> stored_session PHOTOS' sid = Some (add_photo meta (photo_entry fname groupId f))
    \<and> response = jsonResponse (UploadedObj True fname (photoCount meta + 1)) 200"
proof -
  have "upload_photo env request sid PHOTOS = (Inr response, PHOTOS')"
    using fetch_upload [OF assms(1-3), of env rt PHOTOS] assms(4,5) catch_200 by metis
  from upload_success [OF this assms(5)]
  obtain meta fd f fname P2 where
    st: "stored_session PHOTOS sid = Some meta"
    and fd: "formData request = Some fd" and f: "form_file fd = Some f"
    and fname: "upload_fname fd = Inr fname"
    and th: "save_thumb sid fname (form_thumb fd)
       (PHOTOS(photo_key sid fname \<mapsto> photo_object fname (or_default (form_groupId fd) []) f))
       = Inr P2"
    and P': "PHOTOS' = P2(meta_key sid \<mapsto> meta_object
        (add_photo meta (photo_entry fname (or_default (form_groupId fd) []) f)))"
    and r: "response = jsonResponse (UploadedObj True fname (photoCount meta + 1)) 200"
    by blast
  let ?g = "or_default (form_groupId fd) []"
  have fn: "fname = or_default (form_fname fd) (file_name f)"
    using fname upload_fname_or_default [OF f] by simp
  have "P2 (photo_key sid fname) = Some (photo_object fname ?g f)"
    using save_thumb_other [OF th, of "photo_key sid fname"] thumb_key_neq_photo_key [of sid fname fname]
    by (simp add: eq_commute)
  then have photo: "PHOTOS' (photo_key sid fname) = Some (photo_object fname ?g f)"
    using P' photo_key_neq_meta_key [of sid fname] by simp
  have thumb: "\<exists>t bs. form_thumb fd = Some t \<and> thumb_body t = Inr bs
           \<and> PHOTOS' (thumb_key sid fname) =
               Some \<lparr>obj_body = Raw bs, contentType = Some ''image/jpeg'', customMetadata = []\<rparr>"
    if "thumb_given (form_thumb fd)"
    using save_thumb_given [OF th that] P' thumb_key_neq_meta_key [of sid fname] by auto
  have "stored_session PHOTOS' sid = Some (add_photo meta (photo_entry fname ?g f))"
    using P' by (simp add: stored_session_meta_object)
  with st fd f fn photo thumb r show ?thesis by blast
qed

text \<open>
  The size limit's message names the variable, not the limit in force: when
  \<open>MAX_FILE_SIZE_MB\<close> is unset the limit is 25 and the message reads \<open>undefined\<close>.
\<close>

lemma too_large_message_default:
  assumes "stored_session PHOTOS sid = Some meta"
    "\<not> num_ge (int (photoCount meta)) (maxPhotos env)"
    "formData request = Some fd" "form_file fd = Some f"
    "MAX_FILE_SIZE_MB env = None" "int (file_size f) > 26214400"
  shows "upload_photo env request sid PHOTOS =
           (Inr (errorResponse ''File too large (max undefinedMB)'' 400), PHOTOS)"
  using upload_too_large [OF assms(1-4)] assms(5,6) maxSize_default [OF assms(5)]
  by (simp add: num_gt_def template_string_def)

section \<open>The example data\<close>

lemma id_example: "is_session_id ''ABCDEFGH''" by (simp add: is_session_id_def is_alnum_def)

lemma stored_one: "stored_session bucket_one ''ABCDEFGH'' = Some session_one"
  by (simp add: stored_session_def bucket_one_def meta_key_def meta_object_def)

lemma upload_example_route:
  "request_method (upload_request sid fd) = ''POST''"
  "pathname (upload_request sid fd) = ''/api/session/'' @ sid @ ''/upload''"
  "formData (upload_request sid fd) = Some fd"
  by (simp_all add: upload_request_def)

lemma get_example_route:
  "request_method (get_request path) = ''GET''"
  "pathname (get_request path) = path"
  by (simp_all add: get_request_def)

lemma asset_a: "asset_name ''a.jpg''" by (simp add: asset_name_def)

lemma decode_a: "decodeURIComponent ''a.jpg'' = Inr ''a.jpg''" by (simp add: decodeURIComponent_def)

lemma stored_assets: "stored_session bucket_assets ''ABCDEFGH'' = Some session_one"
  by (simp add: stored_session_def bucket_assets_def bucket_one_def meta_key_def meta_object_def)

lemma expired_one: "expiresAt session_one < clock rt_example"
  by (simp add: session_one_def rt_example_def)

lemma under_quota_one: "\<not> num_ge (int (photoCount session_one)) (maxPhotos env_default)"
  by (simp add: num_ge_def maxPhotos_default env_default_def session_one_def)

lemma small_fits: "\<not> num_gt (int (file_size file_small)) (maxSize env_default)"
  by (simp add: num_gt_def maxSize_default env_default_def file_small_def)

lemma gen_example: "generateId (random rt_example) 8 = ''ABCDEFGH''"
  by code_simp

lemma create_example:
  "status (fst (fetch env_default rt_example create_request Map.empty)) = 200"
  using fetch_create [of create_request env_default rt_example Map.empty]
  by (simp add: create_request_def create_session_def env_default_def rt_example_def
      eval_parseInt toISOString_def Let_def catch_def status_jsonResponse)

lemma thumb_body_blob: "thumb_body (ThumbBlob bs) = Inr bs"
  by (simp add: thumb_body_def)

lemma traversal_accepted:
  "status (fst (fetch env_default rt_example (upload_request ''ABCDEFGH'' form_traversal)
      bucket_one)) = 200"
  using fetch_upload_accepted [OF id_example upload_example_route(1,2) stored_one
        under_quota_one upload_example_route(3) _ small_fits, of form_traversal rt_example]
  by (simp add: form_traversal_def status_jsonResponse thumb_body_blob)

lemma again_accepted:
  "fst (fetch env_default rt_example (upload_request ''ABCDEFGH'' form_again) bucket_assets)
     = jsonResponse (UploadedObj True ''a.jpg'' 2) 200"
  using fetch_upload_accepted [OF id_example upload_example_route(1,2) stored_assets
        under_quota_one upload_example_route(3) _ _, of form_again file_again rt_example]
  by (simp add: form_again_def file_again_def or_default_def session_one_def num_gt_def
      maxSize_default env_default_def numeral_2_eq_2)

lemma big_size: "file_size file_big = 26214401"
  by (simp add: file_big_def)

section \<open>Claims\<close>

text \<open>
  C1. For every session the photo count equals the length of the photo list: after a
  successful CreateSession the stored document has count 0 and an empty list; after a
  successful UploadPhoto the stored document is the one read, with the count
  incremented by exactly one and exactly one record appended; so every document that
  was consistent before an invocation is consistent after it, and every bucket that the
  worker has built from the empty one holds consistent documents only.
\<close>

theorem photoCount_equals_length:
  assumes "fetch env rt request PHOTOS = (response, PHOTOS')"
  shows "(request_method request = ''POST'' \<and> pathname request = ''/api/session''
            \<and> status response = 200
          \<longrightarrow> (\<exists>meta. stored_session PHOTOS' (generateId (random rt) 8) = Some meta
                 \<and> photoCount meta = 0 \<and> photos meta = []))
       \<and> (\<forall>sid. is_session_id sid \<and> request_method request = ''POST''
            \<and> pathname request = ''/api/session/'' @ sid @ ''/upload''
            \<and> status response = 200
          \<longrightarrow> (\<exists>meta meta' entry. stored_session PHOTOS sid = Some meta
                 \<and> stored_session PHOTOS' sid = Some meta'
                 \<and> photoCount meta' = photoCount meta + 1
                 \<and> photos meta' = photos meta @ [entry]))
       \<and> (\<forall>key. consistent (PHOTOS key) \<longrightarrow> consistent (PHOTOS' key))
       \<and> (\<forall>steps sid meta. PHOTOS = run steps Map.empty
            \<and> stored_session PHOTOS' sid = Some meta
          \<longrightarrow> photoCount meta = length (photos meta))"
proof (intro conjI allI impI)
  assume a: "request_method request = ''POST'' \<and> pathname request = ''/api/session''
            \<and> status response = 200"
  then have "create_session env rt request PHOTOS = (Inr response, PHOTOS')"
    using fetch_create [of request env rt PHOTOS] assms catch_200 by metis
  from create_success [OF this]
  show "\<exists>meta. stored_session PHOTOS' (generateId (random rt) 8) = Some meta
                 \<and> photoCount meta = 0 \<and> photos meta = []"
    using stored_session_meta_object by blast
next
  fix sid
  assume a: "is_session_id sid \<and> request_method request = ''POST''
            \<and> pathname request = ''/api/session/'' @ sid @ ''/upload''
            \<and> status response = 200"
  then obtain meta fname groupId f where
    "stored_session PHOTOS sid = Some meta"
    "stored_session PHOTOS' sid = Some (add_photo meta (photo_entry fname groupId f))"
    using fetch_upload_success [of sid request env rt PHOTOS response PHOTOS'] assms by blast
  then show "\<exists>meta meta' entry. stored_session PHOTOS sid = Some meta
                 \<and> stored_session PHOTOS' sid = Some meta'
                 \<and> photoCount meta' = photoCount meta + 1
                 \<and> photos meta' = photos meta @ [entry]"
    by (auto simp: add_photo_def)
next
  fix key
  assume "consistent (PHOTOS key)"
  then show "consistent (PHOTOS' key)"
    using consistent_fetch [of PHOTOS key env rt request] assms by simp
next
  fix steps sid meta
  assume a: "PHOTOS = run steps Map.empty \<and> stored_session PHOTOS' sid = Some meta"
  then have "consistent (PHOTOS (meta_key sid))"
    using run_from_empty by simp
  then have "consistent (PHOTOS' (meta_key sid))"
    using consistent_fetch [of PHOTOS "meta_key sid" env rt request] assms by simp
  then show "photoCount meta = length (photos meta)"
    using a by (auto simp: consistent_def stored_session_eq)
qed

text \<open>
  Instances: a session created in the empty bucket, and a second photo uploaded to the
  session of \<open>bucket_one\<close>.
\<close>

theorem photoCount_equals_length_witness:
  "(\<exists>meta. stored_session (snd (fetch env_default rt_example create_request Map.empty))
              ''ABCDEFGH'' = Some meta
           \<and> photoCount meta = 0 \<and> photos meta = [] \<and> photoCount meta = length (photos meta))
   \<and> (\<exists>meta' entry.
         stored_session (snd (fetch env_default rt_example
            (upload_request ''ABCDEFGH'' form_small) bucket_one)) ''ABCDEFGH'' = Some meta'
         \<and> photoCount meta' = 2 \<and> photos meta' = photos session_one @ [entry])
   \<and> consistent (bucket_one ''sessions/ABCDEFGH/meta.json'')
   \<and> consistent (snd (fetch env_default rt_example (upload_request ''ABCDEFGH'' form_small)
         bucket_one) ''sessions/ABCDEFGH/meta.json'')"
proof -
  let ?c = "fetch env_default rt_example create_request Map.empty"
  let ?u = "fetch env_default rt_example (upload_request ''ABCDEFGH'' form_small) bucket_one"
  note C = photoCount_equals_length [of env_default rt_example create_request Map.empty
      "fst ?c" "snd ?c", OF prod.collapse [symmetric]]
  note U = photoCount_equals_length [of env_default rt_example
      "upload_request ''ABCDEFGH'' form_small" bucket_one "fst ?u" "snd ?u",
      OF prod.collapse [symmetric]]
  have "\<exists>meta. stored_session (snd ?c) ''ABCDEFGH'' = Some meta
           \<and> photoCount meta = 0 \<and> photos meta = []"
    using C [THEN conjunct1] create_example gen_example
    by (simp add: create_request_def)
  then obtain meta where m: "stored_session (snd ?c) ''ABCDEFGH'' = Some meta"
    "photoCount meta = 0" "photos meta = []"
    by blast
  have "photoCount meta = length (photos meta)"
    using C [THEN conjunct2, THEN conjunct2, THEN conjunct2, rule_format,
        of "[]" "''ABCDEFGH''" meta] m(1) by simp
  with m have 1: "\<exists>meta. stored_session (snd ?c) ''ABCDEFGH'' = Some meta
           \<and> photoCount meta = 0 \<and> photos meta = [] \<and> photoCount meta = length (photos meta)"
    by blast
  have ok: "status (fst ?u) = 200"
    using fetch_upload_accepted [OF id_example upload_example_route(1,2) stored_one
        under_quota_one upload_example_route(3) _ small_fits, of form_small rt_example]
    by (simp add: form_small_def status_jsonResponse)
  have "\<exists>meta meta' entry. stored_session bucket_one ''ABCDEFGH'' = Some meta
                 \<and> stored_session (snd ?u) ''ABCDEFGH'' = Some meta'
                 \<and> photoCount meta' = photoCount meta + 1
                 \<and> photos meta' = photos meta @ [entry]"
    using U [THEN conjunct2, THEN conjunct1, rule_format, of "''ABCDEFGH''"]
      id_example upload_example_route(1,2) ok by simp
  then have 2: "\<exists>meta' entry. stored_session (snd ?u) ''ABCDEFGH'' = Some meta'
         \<and> photoCount meta' = 2 \<and> photos meta' = photos session_one @ [entry]"
    using stored_one by (auto simp: session_one_def)
  have 3: "consistent (bucket_one ''sessions/ABCDEFGH/meta.json'')"
    by (simp add: consistent_def bucket_one_def meta_object_def session_one_def)
  have 4: "consistent (snd ?u ''sessions/ABCDEFGH/meta.json'')"
    using U [THEN conjunct2, THEN conjunct2, THEN conjunct1, rule_format, OF 3] .
  show ?thesis using 1 2 3 4 by blast
qed



text \<open>
  C3. An upload of a file larger than the configured maximum (\<open>MAX_FILE_SIZE_MB\<close> times
  \<open>1024 * 1024\<close>, 25 when unset) should fail with \<open>PayloadTooLarge\<close>, with the
  configured limit in the message, and write nothing. With \<open>MAX_FILE_SIZE_MB\<close> unset
  and a file one octet above 25 MiB, sent to an existing session under its quota, the
  answer is status 400 and nothing is written, but the message interpolates the unset
  variable, not the limit in force: it reads \<open>max undefinedMB\<close> and shows the limit
  neither in MiB nor in octets.
\<close>

theorem too_large_message_omits_limit:
  "stored_session bucket_one ''ABCDEFGH'' = Some session_one
   \<and> \<not> num_ge (int (photoCount session_one)) (maxPhotos env_default)
   \<and> MAX_FILE_SIZE_MB env_default = None
   \<and> maxSize env_default = Some (25 * 1024 * 1024)
   \<and> num_gt (int (file_size file_big)) (maxSize env_default)
   \<and> fetch env_default rt_example (upload_request ''ABCDEFGH'' form_big) bucket_one =
       (errorResponse ''File too large (max undefinedMB)'' 400, bucket_one)
   \<and> \<not> sublist ''25'' ''File too large (max undefinedMB)''
   \<and> \<not> sublist (Number_toString (25 * 1024 * 1024)) ''File too large (max undefinedMB)''"
proof -
  have unset: "MAX_FILE_SIZE_MB env_default = None"
    by (simp add: env_default_def)
  have limit: "maxSize env_default = Some (25 * 1024 * 1024)"
    using maxSize_default [OF unset] by simp
  have big: "int (file_size file_big) > 26214400"
    by (simp add: big_size)
  have f: "form_file form_big = Some file_big"
    by (simp add: form_big_def)
  have "upload_photo env_default (upload_request ''ABCDEFGH'' form_big) ''ABCDEFGH'' bucket_one =
           (Inr (errorResponse ''File too large (max undefinedMB)'' 400), bucket_one)"
    using too_large_message_default [OF stored_one under_quota_one upload_example_route(3) f
        unset big] .
  then have r: "fetch env_default rt_example (upload_request ''ABCDEFGH'' form_big) bucket_one =
       (errorResponse ''File too large (max undefinedMB)'' 400, bucket_one)"
    using fetch_upload [OF id_example upload_example_route(1,2)] by (simp add: catch_def)
  have no2: "CHR ''2'' \<notin> set ''File too large (max undefinedMB)''"
    by simp
  have n1: "\<not> sublist ''25'' ''File too large (max undefinedMB)''"
    using no2 set_mono_sublist [of "''25''" "''File too large (max undefinedMB)''"] by auto
  have d: "Number_toString (25 * 1024 * 1024) = ''26214400''"
    by (simp add: Number_toString_def)
  have n2: "\<not> sublist (Number_toString (25 * 1024 * 1024)) ''File too large (max undefinedMB)''"
    using no2 set_mono_sublist [of "''26214400''" "''File too large (max undefinedMB)''"]
    unfolding d by auto
  have g: "num_gt (int (file_size file_big)) (maxSize env_default)"
    using limit big by (simp add: num_gt_def)
  show ?thesis
    using stored_one under_quota_one unset limit g r n1 n2 by simp
qed

text \<open>
  C4. An upload to an existing session under its quota that provides no file should fail
  with \<open>BadRequest\<close>. When the form has neither a \<open>file\<close> nor an \<open>fname\<close> entry the
  worker reads \<open>file.name\<close> of \<open>null\<close> before it tests \<open>!file\<close>: the call ends in
  the \<open>catch\<close> block with status 500 (\<open>Internal\<close>).
\<close>

theorem missing_file_internal_error:
  "stored_session bucket_one ''ABCDEFGH'' = Some session_one
   \<and> \<not> num_ge (int (photoCount session_one)) (maxPhotos env_default)
   \<and> form_file form_empty = None
   \<and> fetch env_default rt_example (upload_request ''ABCDEFGH'' form_empty) bucket_one =
       (errorResponse (''Internal server error: '' @ message TypeError) 500, bucket_one)
   \<and> error_kind (fst (fetch env_default rt_example (upload_request ''ABCDEFGH'' form_empty) bucket_one))
       = Some Internal"
proof -
  have h5: "\<not> num_ge (int (photoCount session_one)) (maxPhotos env_default)"
    by (simp add: num_ge_def maxPhotos_default env_default_def session_one_def)
  have h7: "form_file form_empty = None" "or_default (form_fname form_empty) [] = []"
    by (simp_all add: form_empty_def or_default_def)
  have "fetch env_default rt_example (upload_request ''ABCDEFGH'' form_empty) bucket_one =
       (errorResponse (''Internal server error: '' @ message TypeError) 500, bucket_one)"
    using fetch_upload [OF id_example upload_example_route(1,2)]
      upload_no_file_no_fname [OF stored_one h5 upload_example_route(3) h7]
    by (simp add: catch_def)
  then show ?thesis using stored_one h5 h7
    by (simp add: error_kind_def errorResponse_def jsonResponse_def)
qed

text \<open>
  C5. Reading a session whose stored, well-formed document has an expiry time before the
  current time is answered with status 410 (\<open>Expired\<close>), and the bucket is left as it
  was: the document is neither deleted nor rewritten.
\<close>

theorem expired_session:
  assumes "is_session_id sid" "request_method request = ''GET''"
    "pathname request = ''/api/session/'' @ sid"
    "stored_session PHOTOS sid = Some meta" "expiresAt meta < clock rt"
  shows "fetch env rt request PHOTOS = (errorResponse ''Session expired'' 410, PHOTOS)
       \<and> error_kind (fst (fetch env rt request PHOTOS)) = Some Expired"
proof -
  have "fetch env rt request PHOTOS = (errorResponse ''Session expired'' 410, PHOTOS)"
    using fetch_get_session [OF assms(1-3)] get_session_expired [OF assms(4,5)]
    by (simp add: catch_def)
  then show ?thesis
    by (simp add: error_kind_def errorResponse_def jsonResponse_def)
qed

text \<open>An instance: the session of \<open>bucket_one\<close> read at the clock of \<open>rt_example\<close>.\<close>

theorem expired_session_witness:
  "stored_session bucket_one ''ABCDEFGH'' = Some session_one
   \<and> expiresAt session_one < clock rt_example
   \<and> fetch env_default rt_example (get_request ''/api/session/ABCDEFGH'') bucket_one
       = (errorResponse ''Session expired'' 410, bucket_one)"
proof -
  have h3: "pathname (get_request ''/api/session/ABCDEFGH'') = ''/api/session/'' @ ''ABCDEFGH''"
    by (simp add: get_request_def)
  have h5: "expiresAt session_one < clock rt_example"
    by (simp add: session_one_def rt_example_def)
  show ?thesis
    using expired_session [OF id_example get_example_route(1) h3 stored_one h5, of env_default]
      stored_one h5 by simp
qed

text \<open>
  C6, as stated: reading a session whose metadata key holds content that is not a
  well-formed Session document fails with \<open>CorruptMetadata\<close>, a kind of its own. It
  does not: the error that \<open>JSON.parse\<close> throws reaches the \<open>catch\<close> block, and the
  answer is the generic \<open>Internal\<close> error.
\<close>

theorem corrupt_metadata_counterexample:
  "bucket_corrupt (meta_key ''ABCDEFGH'') \<noteq> None
   \<and> stored_session bucket_corrupt ''ABCDEFGH'' = None
   \<and> error_kind (fst (fetch env_default rt_example (get_request ''/api/session/ABCDEFGH'') bucket_corrupt))
       = Some Internal
   \<and> error_kind (fst (fetch env_default rt_example (get_request ''/api/session/ABCDEFGH'') bucket_corrupt))
       \<noteq> Some CorruptMetadata"
proof -
  have h3: "pathname (get_request ''/api/session/ABCDEFGH'') = ''/api/session/'' @ ''ABCDEFGH''"
    by (simp add: get_request_def)
  have "get_session rt_example ''ABCDEFGH'' bucket_corrupt = (Inl SyntaxError, bucket_corrupt)"
    by (simp add: get_session_def bucket_corrupt_def meta_key_def)
  then have "fetch env_default rt_example (get_request ''/api/session/ABCDEFGH'') bucket_corrupt
      = (errorResponse (''Internal server error: '' @ message SyntaxError) 500, bucket_corrupt)"
    using fetch_get_session [OF id_example get_example_route(1) h3] by (simp add: catch_def)
  then show ?thesis
    by (simp add: error_kind_def errorResponse_def jsonResponse_def bucket_corrupt_def meta_key_def
        stored_session_def)
qed

text \<open>
  C6, amended. Reading a session whose metadata key holds content that \<open>JSON.parse\<close>
  rejects is answered with status 500 and the message \<open>Internal server error: \<close>
  followed by the message of the error (\<open>Internal\<close>); the bucket is left as it was.
\<close>

theorem corrupt_metadata_is_internal:
  assumes "is_session_id sid" "request_method request = ''GET''"
    "pathname request = ''/api/session/'' @ sid"
    "PHOTOS (meta_key sid) = Some obj" "obj_body obj = Raw bs"
  shows "fetch env rt request PHOTOS =
           (errorResponse (''Internal server error: '' @ message SyntaxError) 500, PHOTOS)
       \<and> error_kind (fst (fetch env rt request PHOTOS)) = Some Internal"
proof -
  have "fetch env rt request PHOTOS =
           (errorResponse (''Internal server error: '' @ message SyntaxError) 500, PHOTOS)"
    using fetch_get_session [OF assms(1-3)]
      get_session_raw [where PHOTOS = PHOTOS and sid = sid and obj = obj and bs = bs] assms(4,5)
    by (simp add: catch_def)
  then show ?thesis
    by (simp add: error_kind_def errorResponse_def jsonResponse_def)
qed

text \<open>An instance: the metadata key of \<open>bucket_corrupt\<close>.\<close>

theorem corrupt_metadata_is_internal_witness:
  "bucket_corrupt (meta_key ''ABCDEFGH'') =
     Some \<lparr>obj_body = Raw [110, 111, 116, 32, 106, 115, 111, 110],
           contentType = Some ''application/json'', customMetadata = []\<rparr>
   \<and> fetch env_default rt_example (get_request ''/api/session/ABCDEFGH'') bucket_corrupt =
       (errorResponse (''Internal server error: '' @ message SyntaxError) 500, bucket_corrupt)"
proof -
  have h3: "pathname (get_request ''/api/session/ABCDEFGH'') = ''/api/session/'' @ ''ABCDEFGH''"
    by (simp add: get_request_def)
  have h4: "bucket_corrupt (meta_key ''ABCDEFGH'') =
     Some \<lparr>obj_body = Raw [110, 111, 116, 32, 106, 115, 111, 110],
           contentType = Some ''application/json'', customMetadata = []\<rparr>"
    by (simp add: bucket_corrupt_def meta_key_def)
  show ?thesis
    using corrupt_metadata_is_internal [where sid = "''ABCDEFGH''" and PHOTOS = bucket_corrupt
        and request = "get_request ''/api/session/ABCDEFGH''" and env = env_default
        and rt = rt_example and bs = "[110, 111, 116, 32, 106, 115, 111, 110]"
        and obj = "\<lparr>obj_body = Raw [110, 111, 116, 32, 106, 115, 111, 110],
           contentType = Some ''application/json'', customMetadata = []\<rparr>"]
      id_example get_example_route(1) h3 h4 by simp
qed

text \<open>
  C7. Fetching a thumbnail: when the thumbnail key exists, the response has status 200
  and its body is the stored thumbnail (served as \<open>image/jpeg\<close>); when it is absent and
  the photo key exists, the response has status 200, its body is the stored photo and its
  \<open>Content-Type\<close> is the content type stored with the photo (\<open>image/jpeg\<close> when none
  is stored); when neither exists the answer is status 404 (\<open>NotFound\<close>). The bucket
  is left as it was.
\<close>

theorem thumbnail_fallback:
  assumes "is_session_id sid" "asset_name raw" "request_method request = ''GET''"
    "pathname request = ''/api/session/'' @ sid @ ''/thumb/'' @ raw"
    "decodeURIComponent raw = Inr fname"
  shows "(\<forall>obj. PHOTOS (thumb_key sid fname) = Some obj \<longrightarrow>
            status (fst (fetch env rt request PHOTOS)) = 200
          \<and> payload (fst (fetch env rt request PHOTOS)) = Stream (obj_body obj)
          \<and> map_of (headers (fst (fetch env rt request PHOTOS))) ''Content-Type''
              = Some ''image/jpeg''
          \<and> snd (fetch env rt request PHOTOS) = PHOTOS)
       \<and> (\<forall>fullObj. PHOTOS (thumb_key sid fname) = None
            \<and> PHOTOS (photo_key sid fname) = Some fullObj \<longrightarrow>
            status (fst (fetch env rt request PHOTOS)) = 200
          \<and> payload (fst (fetch env rt request PHOTOS)) = Stream (obj_body fullObj)
          \<and> map_of (headers (fst (fetch env rt request PHOTOS))) ''Content-Type''
              = Some (case contentType fullObj of
                        None \<Rightarrow> ''image/jpeg''
                      | Some ct \<Rightarrow> if ct = [] then ''image/jpeg'' else ct)
          \<and> snd (fetch env rt request PHOTOS) = PHOTOS)
       \<and> (PHOTOS (thumb_key sid fname) = None \<and> PHOTOS (photo_key sid fname) = None \<longrightarrow>
            status (fst (fetch env rt request PHOTOS)) = 404
          \<and> payload (fst (fetch env rt request PHOTOS)) = Json (ErrorObj ''Photo not found'')
          \<and> error_kind (fst (fetch env rt request PHOTOS)) = Some NotFound
          \<and> snd (fetch env rt request PHOTOS) = PHOTOS)"
proof -
  have r: "fetch env rt request PHOTOS = catch (get_thumb sid raw PHOTOS)"
    using fetch_thumb [OF assms(1-4)] .
  show ?thesis
    unfolding r using assms(5)
    by (simp add: get_thumb_def catch_def or_default_def assetResponse_def errorResponse_def
        jsonResponse_def error_kind_def split: option.splits)
qed

text \<open>An instance: a photo stored as \<open>image/png\<close> and no thumbnail.\<close>

theorem thumbnail_fallback_witness:
  "bucket_photo_only (thumb_key ''ABCDEFGH'' ''a.jpg'') = None
   \<and> bucket_photo_only (photo_key ''ABCDEFGH'' ''a.jpg'') =
      Some \<lparr>obj_body = Raw [1, 2, 3], contentType = Some ''image/png'',
        customMetadata = [(''groupId'', []), (''originalName'', ''a.jpg'')]\<rparr>
   \<and> status (fst (fetch env_default rt_example
        (get_request ''/api/session/ABCDEFGH/thumb/a.jpg'') bucket_photo_only)) = 200
   \<and> payload (fst (fetch env_default rt_example
        (get_request ''/api/session/ABCDEFGH/thumb/a.jpg'') bucket_photo_only))
       = Stream (Raw [1, 2, 3])
   \<and> map_of (headers (fst (fetch env_default rt_example
        (get_request ''/api/session/ABCDEFGH/thumb/a.jpg'') bucket_photo_only))) ''Content-Type''
       = Some ''image/png''"
proof -
  have h4: "pathname (get_request ''/api/session/ABCDEFGH/thumb/a.jpg'')
            = ''/api/session/'' @ ''ABCDEFGH'' @ ''/thumb/'' @ ''a.jpg''"
    by (simp add: get_request_def)
  have t: "bucket_photo_only (thumb_key ''ABCDEFGH'' ''a.jpg'') = None"
    by (simp add: bucket_photo_only_def bucket_one_def thumb_key_def)
  have p: "bucket_photo_only (photo_key ''ABCDEFGH'' ''a.jpg'') =
      Some \<lparr>obj_body = Raw [1, 2, 3], contentType = Some ''image/png'',
        customMetadata = [(''groupId'', []), (''originalName'', ''a.jpg'')]\<rparr>"
    by (simp add: bucket_photo_only_def photo_key_def)
  show ?thesis
    using thumbnail_fallback [OF id_example asset_a get_example_route(1) h4 decode_a,
        where PHOTOS = bucket_photo_only and env = env_default and rt = rt_example,
        THEN conjunct2, THEN conjunct1, rule_format,
        of "\<lparr>obj_body = Raw [1, 2, 3], contentType = Some ''image/png'',
        customMetadata = [(''groupId'', []), (''originalName'', ''a.jpg'')]\<rparr>"] t p
    by simp
qed

text \<open>
  C8. Expiry is enforced by GetSession only. For a session whose expiry time has
  passed, GetSession answers \<open>Expired\<close>, while an upload that passes the other checks
  (quota, file present, size, a thumbnail that decodes) succeeds (the response is the
  success object and the stored document counts one photo more), and a stored photo or
  thumbnail is still served.
\<close>

theorem expiry_only_on_read:
  assumes "is_session_id sid" "stored_session PHOTOS sid = Some meta"
    "expiresAt meta < clock rt"
  shows "(\<forall>request. request_method request = ''GET''
            \<and> pathname request = ''/api/session/'' @ sid
          \<longrightarrow> fst (fetch env rt request PHOTOS) = errorResponse ''Session expired'' 410)
       \<and> (\<forall>request fd f. request_method request = ''POST''
            \<and> pathname request = ''/api/session/'' @ sid @ ''/upload''
            \<and> \<not> num_ge (int (photoCount meta)) (maxPhotos env)
            \<and> formData request = Some fd \<and> form_file fd = Some f
            \<and> \<not> num_gt (int (file_size f)) (maxSize env)
            \<and> (\<forall>t. form_thumb fd = Some t \<longrightarrow> (\<exists>bs. thumb_body t = Inr bs))
          \<longrightarrow> fst (fetch env rt request PHOTOS) =
                jsonResponse (UploadedObj True (or_default (form_fname fd) (file_name f))
                  (photoCount meta + 1)) 200
              \<and> (\<exists>meta'. stored_session (snd (fetch env rt request PHOTOS)) sid = Some meta'
                    \<and> photoCount meta' = photoCount meta + 1))
       \<and> (\<forall>request raw fname obj. request_method request = ''GET''
            \<and> pathname request = ''/api/session/'' @ sid @ ''/photo/'' @ raw
            \<and> asset_name raw \<and> decodeURIComponent raw = Inr fname
            \<and> PHOTOS (photo_key sid fname) = Some obj
          \<longrightarrow> status (fst (fetch env rt request PHOTOS)) = 200
              \<and> payload (fst (fetch env rt request PHOTOS)) = Stream (obj_body obj))
       \<and> (\<forall>request raw fname obj. request_method request = ''GET''
            \<and> pathname request = ''/api/session/'' @ sid @ ''/thumb/'' @ raw
            \<and> asset_name raw \<and> decodeURIComponent raw = Inr fname
            \<and> PHOTOS (thumb_key sid fname) = Some obj
          \<longrightarrow> status (fst (fetch env rt request PHOTOS)) = 200
              \<and> payload (fst (fetch env rt request PHOTOS)) = Stream (obj_body obj))"
proof (intro conjI allI impI)
  fix request :: request
  assume "request_method request = ''GET'' \<and> pathname request = ''/api/session/'' @ sid"
  then show "fst (fetch env rt request PHOTOS) = errorResponse ''Session expired'' 410"
    using fetch_get_session [OF assms(1), of request env rt PHOTOS]
      get_session_expired [OF assms(2,3)] by (simp add: catch_def)
next
  fix request :: request and fd :: form and f :: file_part
  assume a: "request_method request = ''POST''
            \<and> pathname request = ''/api/session/'' @ sid @ ''/upload''
            \<and> \<not> num_ge (int (photoCount meta)) (maxPhotos env)
            \<and> formData request = Some fd \<and> form_file fd = Some f
            \<and> \<not> num_gt (int (file_size f)) (maxSize env)
            \<and> (\<forall>t. form_thumb fd = Some t \<longrightarrow> (\<exists>bs. thumb_body t = Inr bs))"
  then show "fst (fetch env rt request PHOTOS) =
                jsonResponse (UploadedObj True (or_default (form_fname fd) (file_name f))
                  (photoCount meta + 1)) 200"
    using fetch_upload_accepted [OF assms(1) _ _ assms(2), of request env fd f rt] by blast
  have "stored_session (snd (fetch env rt request PHOTOS)) sid =
           Some (add_photo meta (photo_entry (or_default (form_fname fd) (file_name f))
                   (or_default (form_groupId fd) []) f))"
    using a fetch_upload_accepted_stored [OF assms(1) _ _ assms(2), of request env fd f rt]
    by blast
  then show "\<exists>meta'. stored_session (snd (fetch env rt request PHOTOS)) sid = Some meta'
                    \<and> photoCount meta' = photoCount meta + 1"
    by (simp add: add_photo_def)
next
  fix request :: request and raw fname :: string and obj :: r2object
  assume a: "request_method request = ''GET''
            \<and> pathname request = ''/api/session/'' @ sid @ ''/photo/'' @ raw
            \<and> asset_name raw \<and> decodeURIComponent raw = Inr fname
            \<and> PHOTOS (photo_key sid fname) = Some obj"
  then have "fetch env rt request PHOTOS =
      (assetResponse (obj_body obj) (or_default (contentType obj) ''image/jpeg''), PHOTOS)"
    using fetch_photo [OF assms(1), of raw request env rt PHOTOS]
    by (simp add: get_photo_def catch_def)
  then show "status (fst (fetch env rt request PHOTOS)) = 200"
    and "payload (fst (fetch env rt request PHOTOS)) = Stream (obj_body obj)"
    by (simp_all add: assetResponse_def)
next
  fix request :: request and raw fname :: string and obj :: r2object
  assume a: "request_method request = ''GET''
            \<and> pathname request = ''/api/session/'' @ sid @ ''/thumb/'' @ raw
            \<and> asset_name raw \<and> decodeURIComponent raw = Inr fname
            \<and> PHOTOS (thumb_key sid fname) = Some obj"
  then have "fetch env rt request PHOTOS = (assetResponse (obj_body obj) ''image/jpeg'', PHOTOS)"
    using fetch_thumb [OF assms(1), of raw request env rt PHOTOS]
    by (simp add: get_thumb_def catch_def)
  then show "status (fst (fetch env rt request PHOTOS)) = 200"
    and "payload (fst (fetch env rt request PHOTOS)) = Stream (obj_body obj)"
    by (simp_all add: assetResponse_def)
qed

text \<open>
  An instance: the session of \<open>bucket_assets\<close>, expired at the clock of \<open>rt_example\<close>.
\<close>

theorem expiry_only_on_read_witness:
  "stored_session bucket_assets ''ABCDEFGH'' = Some session_one
   \<and> expiresAt session_one < clock rt_example
   \<and> fst (fetch env_default rt_example (get_request ''/api/session/ABCDEFGH'') bucket_assets)
       = errorResponse ''Session expired'' 410
   \<and> fst (fetch env_default rt_example (upload_request ''ABCDEFGH'' form_small) bucket_assets)
       = jsonResponse (UploadedObj True ''b.jpg'' 2) 200
   \<and> payload (fst (fetch env_default rt_example
         (get_request ''/api/session/ABCDEFGH/photo/a.jpg'') bucket_assets)) = Stream (Raw [1, 2, 3])
   \<and> payload (fst (fetch env_default rt_example
         (get_request ''/api/session/ABCDEFGH/thumb/a.jpg'') bucket_assets)) = Stream (Raw [9, 9])"
proof -
  note T = expiry_only_on_read [OF id_example stored_assets expired_one, of env_default]
  have 1: "fst (fetch env_default rt_example (get_request ''/api/session/ABCDEFGH'') bucket_assets)
       = errorResponse ''Session expired'' 410"
    using T [THEN conjunct1, rule_format, of "get_request ''/api/session/ABCDEFGH''"]
    by (simp add: get_request_def)
  have 2: "fst (fetch env_default rt_example (upload_request ''ABCDEFGH'' form_small) bucket_assets)
       = jsonResponse (UploadedObj True ''b.jpg'' 2) 200"
    using T [THEN conjunct2, THEN conjunct1, rule_format,
        of "upload_request ''ABCDEFGH'' form_small" form_small file_small]
      under_quota_one small_fits
    by (simp add: upload_request_def form_small_def or_default_def file_small_def session_one_def numeral_2_eq_2)
  have 3: "payload (fst (fetch env_default rt_example
         (get_request ''/api/session/ABCDEFGH/photo/a.jpg'') bucket_assets)) = Stream (Raw [1, 2, 3])"
    using T [THEN conjunct2, THEN conjunct2, THEN conjunct1, rule_format,
        of "get_request ''/api/session/ABCDEFGH/photo/a.jpg''" "''a.jpg''" "''a.jpg''"
          "\<lparr>obj_body = Raw [1, 2, 3], contentType = Some ''image/png'',
        customMetadata = [(''groupId'', []), (''originalName'', ''a.jpg'')]\<rparr>"]
      asset_a decode_a
    by (simp add: get_request_def bucket_assets_def photo_key_def)
  have 4: "payload (fst (fetch env_default rt_example
         (get_request ''/api/session/ABCDEFGH/thumb/a.jpg'') bucket_assets)) = Stream (Raw [9, 9])"
    using T [THEN conjunct2, THEN conjunct2, THEN conjunct2, rule_format,
        of "get_request ''/api/session/ABCDEFGH/thumb/a.jpg''" "''a.jpg''" "''a.jpg''"
          "\<lparr>obj_body = Raw [9, 9], contentType = Some ''image/jpeg'', customMetadata = []\<rparr>"]
      asset_a decode_a
    by (simp add: get_request_def bucket_assets_def thumb_key_def)
  show ?thesis using stored_assets expired_one 1 2 3 4 by simp
qed

text \<open>
  C9, as stated: the file name is sanitised before it becomes part of a key, a name with
  path separators or traversal sequences being rejected or normalised. It is not: an
  upload named \<open>../../other/meta.json\<close> succeeds, and both keys carry the name as it
  came.
\<close>

theorem filename_sanitized_counterexample:
  "form_fname form_traversal = Some ''../../other/meta.json''
   \<and> sublist ''../'' ''../../other/meta.json''
   \<and> status (fst (fetch env_default rt_example (upload_request ''ABCDEFGH'' form_traversal)
        bucket_one)) = 200
   \<and> snd (fetch env_default rt_example (upload_request ''ABCDEFGH'' form_traversal) bucket_one)
        ''sessions/ABCDEFGH/photos/../../other/meta.json''
       = Some (photo_object ''../../other/meta.json'' [] file_small)
   \<and> snd (fetch env_default rt_example (upload_request ''ABCDEFGH'' form_traversal) bucket_one)
        ''sessions/ABCDEFGH/thumbs/../../other/meta.json''
       = Some \<lparr>obj_body = Raw [7, 7], contentType = Some ''image/jpeg'', customMetadata = []\<rparr>"
proof -
  let ?u = "fetch env_default rt_example (upload_request ''ABCDEFGH'' form_traversal) bucket_one"
  have s: "sublist ''../'' ''../../other/meta.json''"
    using sublist_appendI [of "''../''" "[]" "''../other/meta.json''"] by simp
  from fetch_upload_success [OF id_example upload_example_route(1,2) prod.collapse [symmetric]
      traversal_accepted]
  have "snd ?u (photo_key ''ABCDEFGH'' ''../../other/meta.json'')
       = Some (photo_object ''../../other/meta.json'' [] file_small)
       \<and> snd ?u (thumb_key ''ABCDEFGH'' ''../../other/meta.json'')
       = Some \<lparr>obj_body = Raw [7, 7], contentType = Some ''image/jpeg'', customMetadata = []\<rparr>"
    by (auto simp: upload_request_def form_traversal_def or_default_def thumb_given_def
        thumb_body_blob)
  then show ?thesis
    using s traversal_accepted by (simp add: photo_key_def thumb_key_def form_traversal_def)
qed

text \<open>
  C9, amended. A successful upload uses the file name as the caller gave it (the
  \<open>fname\<close> entry, or the name of the file when that entry is missing or empty), with
  no sanitising: the photo is stored under \<open>sessions/{id}/photos/\<close> followed by that
  name and a supplied thumbnail under \<open>sessions/{id}/thumbs/\<close> followed by it, and the
  response returns the same name.
\<close>

theorem filename_used_verbatim:
  assumes "is_session_id sid" "request_method request = ''POST''"
    "pathname request = ''/api/session/'' @ sid @ ''/upload''"
    "fetch env rt request PHOTOS = (response, PHOTOS')" "status response = 200"
  shows "\<exists>fd f count. formData request = Some fd \<and> form_file fd = Some f
    \<and> PHOTOS' (''sessions/'' @ sid @ ''/photos/'' @ or_default (form_fname fd) (file_name f))
        = Some (photo_object (or_default (form_fname fd) (file_name f))
                  (or_default (form_groupId fd) []) f)
    \<and> (thumb_given (form_thumb fd) \<longrightarrow>
         (\<exists>bs. PHOTOS' (''sessions/'' @ sid @ ''/thumbs/''
                          @ or_default (form_fname fd) (file_name f))
            = Some \<lparr>obj_body = Raw bs, contentType = Some ''image/jpeg'',
                    customMetadata = []\<rparr>))
    \<and> response = jsonResponse (UploadedObj True (or_default (form_fname fd) (file_name f))
                    count) 200"
  using fetch_upload_success [OF assms]
  by (auto simp: photo_key_def thumb_key_def)

text \<open>An instance: the upload named \<open>../../other/meta.json\<close>.\<close>

theorem filename_used_verbatim_witness:
  "status (fst (fetch env_default rt_example (upload_request ''ABCDEFGH'' form_traversal)
        bucket_one)) = 200
   \<and> snd (fetch env_default rt_example (upload_request ''ABCDEFGH'' form_traversal) bucket_one)
        (''sessions/'' @ ''ABCDEFGH'' @ ''/photos/'' @ ''../../other/meta.json'')
       = Some (photo_object ''../../other/meta.json'' [] file_small)"
proof -
  let ?u = "fetch env_default rt_example (upload_request ''ABCDEFGH'' form_traversal) bucket_one"
  from filename_used_verbatim [OF id_example upload_example_route(1,2) prod.collapse [symmetric]
      traversal_accepted]
  have "snd ?u (''sessions/'' @ ''ABCDEFGH'' @ ''/photos/'' @ ''../../other/meta.json'')
       = Some (photo_object ''../../other/meta.json'' [] file_small)"
    by (auto simp: upload_request_def form_traversal_def or_default_def)
  then show ?thesis using traversal_accepted by simp
qed

text \<open>
  C10. A successful upload under a file name that the session's photo list already
  holds overwrites the photo blob under that key with the new octets, and still appends
  a record and increments the count: the list then holds the name twice, and the count
  is the number of successful uploads, not of distinct stored photos.
\<close>

theorem duplicate_filename_upload:
  assumes "is_session_id sid" "request_method request = ''POST''"
    "pathname request = ''/api/session/'' @ sid @ ''/upload''"
    "fetch env rt request PHOTOS = (response, PHOTOS')" "status response = 200"
    "stored_session PHOTOS sid = Some meta"
    "formData request = Some fd" "form_file fd = Some f"
    "fname = or_default (form_fname fd) (file_name f)"
    "fname \<in> photo_fname ` set (photos meta)"
  shows "(\<exists>obj. PHOTOS' (photo_key sid fname) = Some obj \<and> obj_body obj = Raw (file_stream f))
       \<and> (\<exists>meta' entry. stored_session PHOTOS' sid = Some meta'
             \<and> photos meta' = photos meta @ [entry] \<and> photo_fname entry = fname
             \<and> photoCount meta' = photoCount meta + 1
             \<and> \<not> distinct (map photo_fname (photos meta')))"
proof -
  from fetch_upload_success [OF assms(1-5)] assms(6-9)
  have photo: "PHOTOS' (photo_key sid fname)
                 = Some (photo_object fname (or_default (form_groupId fd) []) f)"
    and doc: "stored_session PHOTOS' sid
                 = Some (add_photo meta (photo_entry fname (or_default (form_groupId fd) []) f))"
    by auto
  let ?entry = "photo_entry fname (or_default (form_groupId fd) []) f"
  have 1: "\<exists>obj. PHOTOS' (photo_key sid fname) = Some obj \<and> obj_body obj = Raw (file_stream f)"
    using photo by (simp add: photo_object_def)
  have dup: "\<not> distinct (map photo_fname (photos (add_photo meta ?entry)))"
    using assms(10) by (simp add: add_photo_def photo_entry_def)
  have "photos (add_photo meta ?entry) = photos meta @ [?entry]"
    "photo_fname ?entry = fname"
    "photoCount (add_photo meta ?entry) = photoCount meta + 1"
    by (simp_all add: add_photo_def photo_entry_def)
  with doc dup have 2: "\<exists>meta' entry. stored_session PHOTOS' sid = Some meta'
             \<and> photos meta' = photos meta @ [entry] \<and> photo_fname entry = fname
             \<and> photoCount meta' = photoCount meta + 1
             \<and> \<not> distinct (map photo_fname (photos meta'))"
    by blast
  show ?thesis using 1 2 by blast
qed

text \<open>An instance: \<open>a.jpg\<close> uploaded again, with other octets.\<close>

theorem duplicate_filename_upload_witness:
  "bucket_assets (photo_key ''ABCDEFGH'' ''a.jpg'') =
     Some \<lparr>obj_body = Raw [1, 2, 3], contentType = Some ''image/png'',
           customMetadata = [(''groupId'', []), (''originalName'', ''a.jpg'')]\<rparr>
   \<and> ''a.jpg'' \<in> photo_fname ` set (photos session_one)
   \<and> fst (fetch env_default rt_example (upload_request ''ABCDEFGH'' form_again) bucket_assets)
       = jsonResponse (UploadedObj True ''a.jpg'' 2) 200
   \<and> (\<exists>obj. snd (fetch env_default rt_example (upload_request ''ABCDEFGH'' form_again)
                bucket_assets) (photo_key ''ABCDEFGH'' ''a.jpg'') = Some obj
           \<and> obj_body obj = Raw [4, 5])
   \<and> (\<exists>meta'. stored_session (snd (fetch env_default rt_example
                (upload_request ''ABCDEFGH'' form_again) bucket_assets)) ''ABCDEFGH'' = Some meta'
           \<and> map photo_fname (photos meta') = [''a.jpg'', ''a.jpg'']
           \<and> photoCount meta' = 2)"
proof -
  let ?u = "fetch env_default rt_example (upload_request ''ABCDEFGH'' form_again) bucket_assets"
  have old: "bucket_assets (photo_key ''ABCDEFGH'' ''a.jpg'') =
     Some \<lparr>obj_body = Raw [1, 2, 3], contentType = Some ''image/png'',
           customMetadata = [(''groupId'', []), (''originalName'', ''a.jpg'')]\<rparr>"
    by (simp add: bucket_assets_def photo_key_def)
  have ok: "status (fst ?u) = 200"
    using again_accepted by (simp add: status_jsonResponse)
  have f: "form_file form_again = Some file_again"
    and n: "''a.jpg'' = or_default (form_fname form_again) (file_name file_again)"
    by (simp_all add: form_again_def file_again_def or_default_def)
  have m: "''a.jpg'' \<in> photo_fname ` set (photos session_one)"
    by (simp add: session_one_def)
  note D = duplicate_filename_upload [OF id_example upload_example_route(1,2)
      prod.collapse [symmetric] ok stored_assets upload_example_route(3) f n m]
  have 1: "\<exists>obj. snd ?u (photo_key ''ABCDEFGH'' ''a.jpg'') = Some obj \<and> obj_body obj = Raw [4, 5]"
    using D [THEN conjunct1] by (simp add: file_again_def)
  have 2: "\<exists>meta'. stored_session (snd ?u) ''ABCDEFGH'' = Some meta'
           \<and> map photo_fname (photos meta') = [''a.jpg'', ''a.jpg'']
           \<and> photoCount meta' = 2"
    using D [THEN conjunct2] by (auto simp: session_one_def)
  show ?thesis using old m again_accepted 1 2 by blast
qed

end
